theory Spec2Isabelle
  imports Main "HOL-Library.Word"
begin

section \<open>Shared types\<close>

text \<open>
  Go errors are values: \<open>errors.New\<close>/\<open>errors.Newf\<close> build one from a message,
  \<open>errors.Wrap\<close> puts a message around an existing error. An error that comes back from
  a collaborator (network, object store) is some \<open>Newf msg\<close>.
\<close>

datatype error = Newf string | Wrap error string

text \<open>
  A \<open>driver.Connection\<close> is an interface value; the model identifies a connection object
  by a number. A nil interface value is \<open>None\<close> of \<open>Connection option\<close>.
\<close>

datatype Connection = Connection nat

section \<open>Agency cache (pkg/deployment/agency)\<close>

subsection \<open>config.go\<close>

record agencyConfig =
  LeaderId :: "string option"
  CommitIndex :: "64 word"
  ConfigurationID :: string
  Pool :: "(string \<times> string) list"
  Active :: "string list"

record agencyConfigResult =
  config :: "agencyConfig option"
  err :: "error option"
  conn :: "Connection option"

text \<open>
  \<open>agencyConfigResults\<close> is a Go map from agent id to a result pointer. It is an
  association list here: the order of the list is the order in which the \<open>range\<close> loop of
  \<open>refresh\<close> happens to visit the map, which Go leaves unspecified, so a statement over all
  lists covers every visiting order. Lookup \<open>r[k]\<close> is \<open>map_of r k\<close>.
  Every pointer stored by \<open>getAgencyConfigResults\<close> is non-nil once the wait group is done.
\<close>

type_synonym agencyConfigResults = "(string \<times> agencyConfigResult) list"

text \<open>
  \<open>getAgencyConfig\<close> performs the HTTP request \<open>GET /_api/agency/config\<close> and decodes the
  body: its answer is what the agent behind the connection replies in this round, an input
  of the model (\<open>Inl\<close> the error, \<open>Inr\<close> the decoded configuration).
\<close>

type_synonym agencyReply = "Connection \<Rightarrow> error + agencyConfig"

definition getAgencyConfigResult :: "agencyReply \<Rightarrow> Connection \<Rightarrow> agencyConfigResult" where
  "getAgencyConfigResult getAgencyConfig c =
     (case getAgencyConfig c of
        Inl e \<Rightarrow> \<lparr>config = None, err = Some e, conn = Some c\<rparr>
      | Inr cfg \<Rightarrow> \<lparr>config = Some cfg, err = None, conn = Some c\<rparr>)"

definition getAgencyConfigResults ::
  "agencyReply \<Rightarrow> (string \<times> Connection) list \<Rightarrow> agencyConfigResults" where
  "getAgencyConfigResults getAgencyConfig connections =
     map (\<lambda>(k, c). (k, getAgencyConfigResult getAgencyConfig c)) connections"

subsection \<open>The agent set\<close>

type_synonym Health = "string \<rightharpoonup> bool"

record agentSetResult =
  id_r :: string
  result_r :: agencyConfig
  conn_r :: "Connection option"

text \<open>
  The field \<open>cache client.Cache\<close> of \<open>agentSet\<close> is only read by \<open>SetMembers\<close> and is left
  out. \<open>clients\<close> is a Go map, kept as an association list (see above).
\<close>

record agentSet =
  clients :: "(string \<times> Connection) list"
  health :: Health
  result :: "agentSetResult option"

definition Health_a :: "agentSet \<Rightarrow> Health" where
  "Health_a a = health a"

definition Leader :: "agentSet \<Rightarrow> string \<times> 64 word \<times> Connection option \<times> bool" where
  "Leader a =
     (case result a of
        None \<Rightarrow> ('''', 0, None, False)
      | Some z \<Rightarrow> (id_r z, CommitIndex (result_r z), conn_r z, True))"

text \<open>The first loop of \<open>refresh\<close>: the first visited response without error that names a leader.\<close>

fun findLeader :: "agencyConfigResults \<Rightarrow> string option" where
  "findLeader [] = None"
| "findLeader ((k, v) # r) =
     (if err v \<noteq> None then findLeader r
      else case config v of
             None \<Rightarrow> findLeader r
           | Some cfg \<Rightarrow> (case LeaderId cfg of None \<Rightarrow> findLeader r | Some l \<Rightarrow> Some l))"

text \<open>The body of the second loop of \<open>refresh\<close>, over \<open>cfg.Active\<close>.\<close>

definition markActive :: "agencyConfigResults \<Rightarrow> string \<Rightarrow> Health \<Rightarrow> Health" where
  "markActive r z h =
     (case map_of r z of
        None \<Rightarrow> h
      | Some q \<Rightarrow> if err q = None then h(z \<mapsto> True) else h)"

text \<open>
  \<open>refresh\<close> returns the error (\<open>None\<close> for nil) and the agent set after the deferred
  assignment of \<open>result\<close> and \<open>health\<close>, which runs on every return path.
\<close>

definition refresh :: "agencyReply \<Rightarrow> agentSet \<Rightarrow> error option \<times> agentSet" where
  "refresh getAgencyConfig a =
     (let r = getAgencyConfigResults getAgencyConfig (clients a) in
      case findLeader r of
        None \<Rightarrow> (Some (Newf ''NoLeader in Agency''), a\<lparr>health := Map.empty, result := None\<rparr>)
      | Some leader \<Rightarrow>
          (case map_of r leader of
             None \<Rightarrow>
               (Some (Newf ''Leader not in result list''), a\<lparr>health := Map.empty, result := None\<rparr>)
           | Some res \<Rightarrow>
               (case err res of
                  Some e \<Rightarrow>
                    (Some (Wrap e ''Error while fetching from agency''),
                     a\<lparr>health := Map.empty, result := None\<rparr>)
                | None \<Rightarrow>
                    (case config res of
                       None \<Rightarrow>
                         (Some (Newf ''Config result is missing''),
                          a\<lparr>health := Map.empty, result := None\<rparr>)
                     | Some cfg \<Rightarrow>
                         (None,
                          a\<lparr>health := fold (markActive r) (Active cfg) [leader \<mapsto> True],
                            result := Some \<lparr>id_r = leader, result_r = cfg, conn_r = None\<rparr>\<rparr>)))))"

subsection \<open>cache.go\<close>

text \<open>
  \<open>State\<close> is the decoded agency body; its declaration is not part of the sources at hand,
  so it is kept as an opaque payload. The zero value \<open>State{}\<close> is \<open>State []\<close>.
\<close>

datatype State = State string

record cache =
  valid :: bool
  commitIndex :: "64 word"
  data :: State
  set_c :: agentSet

text \<open>
  \<open>loadState\<close> pulls the full agency body through the connection it is given; what comes
  back is an input of the model. The calls that leave the process during a \<open>Reload\<close> are
  recorded in order.
\<close>

type_synonym stateReply = "Connection option \<Rightarrow> error + State"

datatype call = GetAgencyConfig Connection | LoadState "Connection option"

definition CommitIndex_c :: "cache \<Rightarrow> 64 word" where
  "CommitIndex_c c = commitIndex c"

definition Data :: "cache \<Rightarrow> State \<times> bool" where
  "Data c = (data c, valid c)"

definition Reload ::
  "agencyReply \<Rightarrow> stateReply \<Rightarrow> cache \<Rightarrow> (64 word \<times> error option) \<times> cache \<times> call list" where
  "Reload getAgencyConfig loadState c =
     (let polls = map (\<lambda>(k, x). GetAgencyConfig x) (clients (set_c c)) in
      case refresh getAgencyConfig (set_c c) of
        (Some e, s) \<Rightarrow> ((0, Some e), c\<lparr>set_c := s\<rparr>, polls)
      | (None, s) \<Rightarrow>
          (case Leader s of
             (_, ci, cn, ok) \<Rightarrow>
               if \<not> ok then
                 ((0, Some (Newf ''Set did not refresh properly'')), c\<lparr>set_c := s\<rparr>, polls)
               else if ci = commitIndex c \<and> valid c then
                 ((ci, None), c\<lparr>set_c := s\<rparr>, polls)
               else
                 (case loadState cn of
                    Inl e \<Rightarrow> ((ci, Some e), c\<lparr>valid := False, set_c := s\<rparr>, polls @ [LoadState cn])
                  | Inr d \<Rightarrow>
                      ((ci, None),
                       c\<lparr>valid := True, commitIndex := ci, data := d, set_c := s\<rparr>,
                       polls @ [LoadState cn]))))"

text \<open>The commit index that a \<open>Reload\<close> observes at the leader, when the agent set refreshes.\<close>

definition observedCommitIndex :: "agencyReply \<Rightarrow> cache \<Rightarrow> 64 word option" where
  "observedCommitIndex getAgencyConfig c =
     (case refresh getAgencyConfig (set_c c) of
        (Some e, s) \<Rightarrow> None
      | (None, s) \<Rightarrow> (case Leader s of (_, ci, _, ok) \<Rightarrow> if ok then Some ci else None))"

section \<open>Action timeouts (pkg/deployment/reconcile/action\_timeouts.go)\<close>

text \<open>
  \<open>api.ActionType\<close> is a Go string type and \<open>time.Duration\<close> a signed 64-bit count of
  nanoseconds. The declarations of \<open>api.DeploymentSpec\<close>, \<open>api.Timeouts\<close> and \<open>api.Timeout\<close>
  are not among the sources at hand; the records keep what \<open>getActionTimeout\<close> reads: the
  nilable \<open>spec.Timeouts\<close>, its map \<open>Actions\<close> and the \<open>Duration\<close> of an entry.
\<close>

type_synonym ActionType = string

type_synonym Duration = "64 word"

datatype Timeout = Timeout (Duration: Duration)

record Timeouts =
  Actions :: "ActionType \<rightharpoonup> Timeout"

record DeploymentSpec =
  Timeouts :: "Timeouts option"

text \<open>
  The registry \<open>actionTimeouts\<close> (filled by \<open>registerAction\<close>) and the constant
  \<open>defaultTimeout\<close> are declared outside the sources at hand and are parameters here.
\<close>

definition getActionTimeout ::
  "(ActionType \<rightharpoonup> Timeout) \<Rightarrow> DeploymentSpec \<Rightarrow> ActionType \<Rightarrow> Duration \<times> bool" where
  "getActionTimeout actionTimeouts spec t =
     (case (case Timeouts spec of None \<Rightarrow> None | Some timeouts \<Rightarrow> Actions timeouts t) of
        Some d \<Rightarrow> (Duration d, True)
      | None \<Rightarrow>
          (case actionTimeouts t of
             Some d \<Rightarrow> (Duration d, True)
           | None \<Rightarrow> (0, False)))"

definition GetActionTimeout ::
  "(ActionType \<rightharpoonup> Timeout) \<Rightarrow> Duration \<Rightarrow> DeploymentSpec \<Rightarrow> ActionType \<Rightarrow> Duration" where
  "GetActionTimeout actionTimeouts defaultTimeout spec t =
     (case getActionTimeout actionTimeouts spec t of
        (d, True) \<Rightarrow> d
      | (_, False) \<Rightarrow>
          (case getActionTimeout actionTimeouts spec ''default'' of
             (d, True) \<Rightarrow> d
           | (_, False) \<Rightarrow> defaultTimeout))"

text \<open>
  The order of precedence in the words of the specification, to compare with the code: the
  spec's override for the type, then the registered timeout of the type, then the spec's
  \<open>default\<close> entry, then the global default.
\<close>

definition specOverride :: "DeploymentSpec \<Rightarrow> ActionType \<Rightarrow> Timeout option" where
  "specOverride spec t = (case Timeouts spec of None \<Rightarrow> None | Some timeouts \<Rightarrow> Actions timeouts t)"

definition timeoutBySpecWords ::
  "(ActionType \<rightharpoonup> Timeout) \<Rightarrow> Duration \<Rightarrow> DeploymentSpec \<Rightarrow> ActionType \<Rightarrow> Duration" where
  "timeoutBySpecWords registered globalDefault spec t =
     (case specOverride spec t of
        Some d \<Rightarrow> Duration d
      | None \<Rightarrow>
          (case registered t of
             Some d \<Rightarrow> Duration d
           | None \<Rightarrow>
               (case specOverride spec ''default'' of
                  Some d \<Rightarrow> Duration d
                | None \<Rightarrow> globalDefault)))"

section \<open>Authentication wrapper of a member connection (pkg/util/arangod/conn)\<close>

text \<open>
  The wrapped connections, the \<open>Auth\<close> callback and \<open>SetAuthentication\<close> of the base
  connection talk to the outside world. The world is a value of type \<open>'w\<close> that every such
  call reads and returns changed, so two calls with the same arguments may answer
  differently; each call is also recorded in order.
\<close>

datatype Request = Request string string

record Response =
  StatusCode :: int
  Body :: string

datatype Authentication = Authentication string

record 'w driver =
  connDo :: "Connection \<Rightarrow> Request \<Rightarrow> 'w \<Rightarrow> (error + Response) \<times> 'w"
  connSetAuthentication :: "Connection \<Rightarrow> Authentication \<Rightarrow> 'w \<Rightarrow> (error + Connection) \<times> 'w"

record 'w authenticate =
  base :: Connection
  conn_a :: Connection
  auth :: "'w \<Rightarrow> (error + Authentication) \<times> 'w"

datatype authCall =
  CallDo Connection Request
| CallAuth
| CallSetAuthentication Connection Authentication

definition WrapAuthentication ::
  "Connection \<Rightarrow> ('w \<Rightarrow> (error + Authentication) \<times> 'w) \<Rightarrow> 'w authenticate" where
  "WrapAuthentication c f = \<lparr>base = c, conn_a = c, auth = f\<rparr>"

definition StatusUnauthorized :: int where
  "StatusUnauthorized = 401"

text \<open>
  \<open>Reauthenticate\<close> returns the wrapper itself and an error; the model returns the error, the
  wrapper after the call, the world and the calls made.
\<close>

definition Reauthenticate ::
  "'w driver \<Rightarrow> 'w authenticate \<Rightarrow> 'w \<Rightarrow> error option \<times> 'w authenticate \<times> 'w \<times> authCall list" where
  "Reauthenticate d a w =
     (case auth a w of
        (Inl e, w1) \<Rightarrow> (Some (Wrap e ''Unable to refresh auth''), a, w1, [CallAuth])
      | (Inr au, w1) \<Rightarrow>
          (case connSetAuthentication d (base a) au w1 of
             (Inl e, w2) \<Rightarrow>
               (Some (Wrap e ''Unable to set auth''), a, w2,
                [CallAuth, CallSetAuthentication (base a) au])
           | (Inr c, w2) \<Rightarrow>
               (None, a\<lparr>conn_a := c\<rparr>, w2, [CallAuth, CallSetAuthentication (base a) au])))"

definition Do ::
  "'w driver \<Rightarrow> 'w authenticate \<Rightarrow> Request \<Rightarrow> 'w \<Rightarrow>
     (error + Response) \<times> 'w authenticate \<times> 'w \<times> authCall list" where
  "Do d a req w =
     (case connDo d (conn_a a) req w of
        (Inl e, w1) \<Rightarrow> (Inl e, a, w1, [CallDo (conn_a a) req])
      | (Inr resp, w1) \<Rightarrow>
          if StatusCode resp \<noteq> StatusUnauthorized then
            (Inr resp, a, w1, [CallDo (conn_a a) req])
          else
            (case Reauthenticate d a w1 of
               (Some e, a', w2, cs) \<Rightarrow> (Inl e, a', w2, CallDo (conn_a a) req # cs)
             | (None, a', w2, cs) \<Rightarrow>
                 (case connDo d (conn_a a') req w2 of
                    (r, w3) \<Rightarrow> (r, a', w3, CallDo (conn_a a) req # cs @ [CallDo (conn_a a') req]))))"

section \<open>The action RuntimeContainerImageUpdate (pkg/deployment/reconcile)\<close>

text \<open>
  The Kubernetes and API objects that \<open>Start\<close> reads, reduced to the fields on its path:
  \<open>pod.Spec.Containers\<close>, \<open>member.Spec.Template.PodSpec.Spec.Containers\<close> and
  \<open>member.Status.Template.PodSpec.Spec.Containers\<close>, with nilable pointers as options.
\<close>

record Container =
  Name :: string
  Image :: string

record PodSpec =
  Containers :: "Container list"

record Pod =
  ObjectName :: string
  Spec :: PodSpec

record PodTemplateSpec =
  Spec_t :: PodSpec

record ArangoMemberPodTemplate =
  PodSpec :: "PodTemplateSpec option"

record ArangoMemberSpec =
  Template :: "ArangoMemberPodTemplate option"

record ArangoMemberStatus =
  Template_s :: "ArangoMemberPodTemplate option"

record ArangoMember =
  Spec_m :: ArangoMemberSpec
  Status_m :: ArangoMemberStatus

type_synonym MemberPhase = string

record MemberStatus =
  ID :: string
  ClusterID :: string
  Phase :: MemberPhase
  PodName :: string

record Action =
  MemberID :: string
  Group :: string
  Params :: "string \<rightharpoonup> string"

text \<open>
  What the action reads through its context in the tick in which it runs: the member
  statuses, the per-cluster resource caches, the cache of the current cluster and the name
  of the deployment. \<open>PodsModUpdate\<close> is the answer of \<open>PodsModInterface().Update\<close> for a pod.
\<close>

record Inspector =
  PodGetSimple :: "string \<rightharpoonup> Pod"
  ArangoMemberGetSimple :: "string \<rightharpoonup> ArangoMember"

record ActionContext =
  GetMemberStatusByID :: "string \<rightharpoonup> MemberStatus"
  ClusterCache :: "string \<rightharpoonup> Inspector"
  CurrentClusterCache :: Inspector
  GetName :: string
  PodsModUpdate :: "Pod \<Rightarrow> error option"

record actionImpl =
  action :: Action
  actionCtx :: ActionContext

text \<open>
  Declarations that \<open>Start\<close> uses and that live outside the sources at hand, taken as
  parameters: the parameter keys \<open>rotation.ContainerName\<close> and \<open>rotation.ContainerImage\<close>,
  the test \<open>MemberPhase.IsReady\<close> and the naming function \<open>MemberStatus.ArangoMemberName\<close>.
\<close>

record reconcileDecls =
  ContainerName :: string
  ContainerImage :: string
  IsReady :: "MemberPhase \<Rightarrow> bool"
  ArangoMemberName :: "MemberStatus \<Rightarrow> string \<Rightarrow> string \<Rightarrow> string"

definition GetParam :: "Action \<Rightarrow> string \<Rightarrow> string \<times> bool" where
  "GetParam a key = (case Params a key of None \<Rightarrow> ('''', False) | Some v \<Rightarrow> (v, True))"

definition getContainerDetails :: "reconcileDecls \<Rightarrow> actionImpl \<Rightarrow> string \<times> string \<times> bool" where
  "getContainerDetails x a =
     (case GetParam (action a) (ContainerName x) of
        (container, ok) \<Rightarrow>
          if \<not> ok then ('''', '''', False)
          else (case GetParam (action a) (ContainerImage x) of
                  (img, ok) \<Rightarrow> if \<not> ok then ('''', '''', False) else (container, img, True)))"

datatype podCall = PodUpdate Pod

text \<open>
  The loop of \<open>Start\<close> over the indexes of \<open>pod.Spec.Containers\<close>. The three lists have the
  same length when the loop is reached, so every index is in range in all of them.
\<close>

fun startLoop ::
  "(Pod \<Rightarrow> error option) \<Rightarrow> Pod \<Rightarrow> Container list \<Rightarrow> Container list \<Rightarrow> string \<Rightarrow> string \<Rightarrow>
     nat list \<Rightarrow> (bool \<times> error option) \<times> podCall list" where
  "startLoop update pod spec status name img [] = ((True, None), [])"
| "startLoop update pod spec status name img (i # ids) =
     (if Name (Containers (Spec pod) ! i) \<noteq> Name (spec ! i) \<or>
         Name (Containers (Spec pod) ! i) \<noteq> Name (status ! i) \<or>
         Name (Containers (Spec pod) ! i) \<noteq> name
      then startLoop update pod spec status name img ids
      else if Image (Containers (Spec pod) ! i) \<noteq> img then
        (let pod' = pod\<lparr>Spec := (Spec pod)\<lparr>Containers :=
                      (Containers (Spec pod))[i := (Containers (Spec pod) ! i)\<lparr>Image := img\<rparr>]\<rparr>\<rparr>
         in case update pod' of
              Some e \<Rightarrow> ((True, Some e), [PodUpdate pod'])
            | None \<Rightarrow> ((False, None), [PodUpdate pod']))
      else ((True, None), []))"

definition templateContainers :: "ArangoMemberPodTemplate option \<Rightarrow> Container list option" where
  "templateContainers t =
     (case t of
        None \<Rightarrow> None
      | Some tpl \<Rightarrow> (case PodSpec tpl of None \<Rightarrow> None | Some p \<Rightarrow> Some (Containers (Spec_t p))))"

text \<open>
  \<open>Start\<close> returns \<open>(ready, err)\<close> and the pod updates it issued. Before the update the
  code writes the new image into the pod object it got from the cache; the changed pod is
  the argument of the recorded call.
\<close>

definition Start :: "reconcileDecls \<Rightarrow> actionImpl \<Rightarrow> (bool \<times> error option) \<times> podCall list" where
  "Start x a =
     (case GetMemberStatusByID (actionCtx a) (MemberID (action a)) of
        None \<Rightarrow> ((True, None), [])
      | Some m \<Rightarrow>
     (case ClusterCache (actionCtx a) (ClusterID m) of
        None \<Rightarrow> ((True, Some (Newf ''Client is not ready'')), [])
      | Some cache \<Rightarrow>
     (case getContainerDetails x a of
        (name, img, ok) \<Rightarrow>
     if \<not> ok then ((True, None), [])
     else if \<not> IsReady x (Phase m) then ((True, None), [])
     else
     (case ArangoMemberGetSimple (CurrentClusterCache (actionCtx a))
             (ArangoMemberName x m (GetName (actionCtx a)) (Group (action a))) of
        None \<Rightarrow> ((False, Some (Newf ''ArangoMember not found'')), [])
      | Some member \<Rightarrow>
     (case PodGetSimple cache (PodName m) of
        None \<Rightarrow> ((True, None), [])
      | Some pod \<Rightarrow>
     (case templateContainers (Template (Spec_m member)) of
        None \<Rightarrow> ((True, None), [])
      | Some spec \<Rightarrow>
     (case templateContainers (Template_s (Status_m member)) of
        None \<Rightarrow> ((True, None), [])
      | Some status \<Rightarrow>
     if length (Containers (Spec pod)) \<noteq> length spec then ((True, None), [])
     else if length (Containers (Spec pod)) \<noteq> length status then ((True, None), [])
     else startLoop (PodsModUpdate (actionCtx a)) pod spec status name img
            [0 ..< length (Containers (Spec pod))])))))))"

text \<open>
  The state in which the target of the action is already reached, in the words of the
  specification: the pod of the member has a container with the name given in the action
  parameters, and that container runs the requested image.
\<close>

definition imageAlreadyApplied :: "reconcileDecls \<Rightarrow> actionImpl \<Rightarrow> bool" where
  "imageAlreadyApplied x a =
     (case GetMemberStatusByID (actionCtx a) (MemberID (action a)) of
        None \<Rightarrow> False
      | Some m \<Rightarrow>
          (case ClusterCache (actionCtx a) (ClusterID m) of
             None \<Rightarrow> False
           | Some cache \<Rightarrow>
               (case getContainerDetails x a of
                  (name, img, ok) \<Rightarrow>
                    ok \<and>
                    (case PodGetSimple cache (PodName m) of
                       None \<Rightarrow> False
                     | Some pod \<Rightarrow>
                         list_ex (\<lambda>c. Name c = name) (Containers (Spec pod)) \<and>
                         list_all (\<lambda>c. Name c = name \<longrightarrow> Image c = img)
                           (Containers (Spec pod))))))"

section \<open>Resource cache (pkg/deployment/resources/inspector, pkg/util/k8sutil/inspector/throttle)\<close>

subsection \<open>throttle.go\<close>

text \<open>
  A \<open>time.Time\<close> is a number of milliseconds relative to the Unix epoch. The zero value of
  \<open>time.Time\<close> is the first instant of year 1, long before the epoch; \<open>time.UnixMilli(0)\<close>
  is the epoch itself and is not zero. The delay of a throttle is in milliseconds as well.
\<close>

type_synonym Time = int

definition zeroTime :: Time where
  "zeroTime = - 62135596800000"

definition IsZero :: "Time \<Rightarrow> bool" where
  "IsZero t = (t = zeroTime)"

datatype Component =
  ArangoClusterSynchronization
| ArangoMember
| ArangoTask
| Node
| PersistentVolumeClaim
| Pod
| PodDisruptionBudget
| Secret
| Service
| ServiceAccount
| ServiceMonitor
| Endpoints
| OtherComponent string

text \<open>
  The two implementations of the interface \<open>Throttle\<close> differ in how \<open>Copy\<close> treats them.
  \<open>(*throttle).Copy\<close> allocates a new object with the same fields: a copy and its original
  never share state, and such a throttle is kept by value (\<open>Delayed delay next count\<close>).
  \<open>(*alwaysThrottle).Copy\<close> returns its receiver: the copy and the original are one object,
  whose only field is the call counter. Such a throttle is the address of its counter in a
  store of counters (\<open>Always address\<close>). \<open>Fresh\<close> is the new \<open>alwaysThrottle\<close> that \<open>Get\<close> makes
  for a component it does not know; nobody else holds it. The inspector always holds a
  non-nil set of components (\<open>NewInspector\<close> replaces nil by always-throttles).
\<close>

datatype Throttle = Always nat | Delayed int Time int | Fresh

type_synonym counters = "nat \<Rightarrow> int"

record throttleComponents =
  arangoClusterSynchronization :: Throttle
  arangoMember :: Throttle
  arangoTask :: Throttle
  node :: Throttle
  persistentVolumeClaim :: Throttle
  pod_t :: Throttle
  podDisruptionBudget :: Throttle
  secret :: Throttle
  service :: Throttle
  serviceAccount :: Throttle
  serviceMonitor :: Throttle
  endpoints_t :: Throttle

fun Get :: "throttleComponents \<Rightarrow> Component \<Rightarrow> Throttle" where
  "Get t ArangoClusterSynchronization = arangoClusterSynchronization t"
| "Get t ArangoMember = arangoMember t"
| "Get t ArangoTask = arangoTask t"
| "Get t Node = node t"
| "Get t PersistentVolumeClaim = persistentVolumeClaim t"
| "Get t Pod = pod_t t"
| "Get t PodDisruptionBudget = podDisruptionBudget t"
| "Get t Secret = secret t"
| "Get t Service = service t"
| "Get t ServiceAccount = serviceAccount t"
| "Get t ServiceMonitor = serviceMonitor t"
| "Get t Endpoints = endpoints_t t"
| "Get t (OtherComponent s) = Fresh"

text \<open>Writing through the pointer that \<open>Get\<close> returned: the throttle of a component is replaced.\<close>

fun Put :: "throttleComponents \<Rightarrow> Component \<Rightarrow> Throttle \<Rightarrow> throttleComponents" where
  "Put t ArangoClusterSynchronization v = t\<lparr>arangoClusterSynchronization := v\<rparr>"
| "Put t ArangoMember v = t\<lparr>arangoMember := v\<rparr>"
| "Put t ArangoTask v = t\<lparr>arangoTask := v\<rparr>"
| "Put t Node v = t\<lparr>node := v\<rparr>"
| "Put t PersistentVolumeClaim v = t\<lparr>persistentVolumeClaim := v\<rparr>"
| "Put t Pod v = t\<lparr>pod_t := v\<rparr>"
| "Put t PodDisruptionBudget v = t\<lparr>podDisruptionBudget := v\<rparr>"
| "Put t Secret v = t\<lparr>secret := v\<rparr>"
| "Put t Service v = t\<lparr>service := v\<rparr>"
| "Put t ServiceAccount v = t\<lparr>serviceAccount := v\<rparr>"
| "Put t ServiceMonitor v = t\<lparr>serviceMonitor := v\<rparr>"
| "Put t Endpoints v = t\<lparr>endpoints_t := v\<rparr>"
| "Put t (OtherComponent s) v = t"

fun Copy_throttle :: "Throttle \<Rightarrow> Throttle" where
  "Copy_throttle (Always a) = Always a"
| "Copy_throttle (Delayed d n c) = Delayed d n c"
| "Copy_throttle Fresh = Fresh"

definition Copy_components :: "throttleComponents \<Rightarrow> throttleComponents" where
  "Copy_components t =
     \<lparr>arangoClusterSynchronization = Copy_throttle (arangoClusterSynchronization t),
      arangoMember = Copy_throttle (arangoMember t),
      arangoTask = Copy_throttle (arangoTask t),
      node = Copy_throttle (node t),
      persistentVolumeClaim = Copy_throttle (persistentVolumeClaim t),
      pod_t = Copy_throttle (pod_t t),
      podDisruptionBudget = Copy_throttle (podDisruptionBudget t),
      secret = Copy_throttle (secret t),
      service = Copy_throttle (service t),
      serviceAccount = Copy_throttle (serviceAccount t),
      serviceMonitor = Copy_throttle (serviceMonitor t),
      endpoints_t = Copy_throttle (endpoints_t t)\<rparr>"

fun Throttle_ok :: "Time \<Rightarrow> Throttle \<Rightarrow> bool" where
  "Throttle_ok now (Always a) = True"
| "Throttle_ok now (Delayed d n c) = (IsZero n \<or> n < now)"
| "Throttle_ok now Fresh = True"

text \<open>\<open>Delay\<close> returns the throttle after the call and the store of shared counters.\<close>

fun Delay :: "Time \<Rightarrow> Throttle \<Rightarrow> counters \<Rightarrow> Throttle \<times> counters" where
  "Delay now (Always a) cs = (Always a, cs(a := cs a + 1))"
| "Delay now (Delayed d n c) cs = (Delayed d (now + d) (c + 1), cs)"
| "Delay now Fresh cs = (Fresh, cs)"

fun Count :: "counters \<Rightarrow> Throttle \<Rightarrow> int" where
  "Count cs (Always a) = cs a"
| "Count cs (Delayed d n c) = c"
| "Count cs Fresh = 0"

fun Invalidate :: "Throttle \<Rightarrow> Throttle" where
  "Invalidate (Always a) = Always a"
| "Invalidate (Delayed d n c) = Delayed d 0 c"
| "Invalidate Fresh = Fresh"

subsection \<open>inspector.go\<close>

text \<open>
  The per-kind inspectors (\<open>podsInspector\<close> and its siblings), their \<open>validate\<close> methods and
  the loaders registered for them are declared outside the sources at hand. A per-kind
  inspector is an opaque value of type \<open>'d\<close> behind a nilable pointer; \<open>validate\<close> of a kind
  is a parameter; a loader is the record of its five interface methods. \<open>Load\<close> and \<open>Copy\<close>
  write to the inspector state they are handed and return it.
\<close>

datatype ArangoDeployment = ArangoDeployment string

datatype Client = Client nat

record inspectorStateDeploymentResult =
  depl :: "ArangoDeployment option"
  err_d :: "error option"

record 'd inspectorState =
  namespace :: string
  deploymentName :: string
  deploymentResult :: "inspectorStateDeploymentResult option"
  client :: Client
  last_i :: Time
  pods :: "'d option"
  secrets :: "'d option"
  persistentVolumeClaims :: "'d option"
  services :: "'d option"
  serviceAccounts :: "'d option"
  nodes :: "'d option"
  podDisruptionBudgets :: "'d option"
  serviceMonitors :: "'d option"
  arangoMembers :: "'d option"
  arangoTasks :: "'d option"
  arangoClusterSynchronizations :: "'d option"
  endpoints :: "'d option"
  throttles :: throttleComponents
  versionInfo :: string
  initialised :: bool

record 'd inspectorLoader =
  Name_l :: string
  Component :: Component
  Load :: "'d inspectorState \<Rightarrow> 'd inspectorState"
  Verify :: "'d inspectorState \<Rightarrow> error option"
  Copy :: "'d inspectorState \<Rightarrow> 'd inspectorState \<Rightarrow> bool \<Rightarrow> 'd inspectorState"

text \<open>
  What the API server and the clock answer during one refresh: the server version, the
  deployment object, and the readings of \<open>time.Now\<close> in \<open>Throttle\<close>, in \<open>Delay\<close> and at
  the final assignment of \<open>last\<close>.
\<close>

record refreshEnv =
  ServerVersion :: "error + string"
  GetDeployment :: "ArangoDeployment option \<times> error option"
  nowThrottle :: Time
  nowDelay :: Time
  nowLast :: Time

definition TrimPrefix :: "string \<Rightarrow> string \<Rightarrow> string" where
  "TrimPrefix s p = (if take (length p) s = p then drop (length p) s else s)"

definition LastRefresh :: "'d inspectorState \<Rightarrow> Time" where
  "LastRefresh i = last_i i"

definition Initialised :: "'d inspectorState \<Rightarrow> bool" where
  "Initialised i = initialised i"

definition GetThrottles :: "'d inspectorState \<Rightarrow> throttleComponents" where
  "GetThrottles i = throttles i"

definition copyCore :: "'d inspectorState \<Rightarrow> 'd inspectorState" where
  "copyCore i =
     \<lparr>namespace = namespace i,
      deploymentName = deploymentName i,
      deploymentResult = deploymentResult i,
      client = client i,
      last_i = zeroTime,
      pods = pods i,
      secrets = secrets i,
      persistentVolumeClaims = persistentVolumeClaims i,
      services = services i,
      serviceAccounts = serviceAccounts i,
      nodes = nodes i,
      podDisruptionBudgets = podDisruptionBudgets i,
      serviceMonitors = serviceMonitors i,
      arangoMembers = arangoMembers i,
      arangoTasks = arangoTasks i,
      arangoClusterSynchronizations = arangoClusterSynchronizations i,
      endpoints = endpoints i,
      throttles = Copy_components (throttles i),
      versionInfo = versionInfo i,
      initialised = False\<rparr>"

text \<open>The first non-nil error of a sequence of checks, in their order.\<close>

fun firstError :: "error option list \<Rightarrow> error option" where
  "firstError [] = None"
| "firstError (None # es) = firstError es"
| "firstError (Some e # es) = Some e"

definition validate :: "(Component \<Rightarrow> 'd option \<Rightarrow> error option) \<Rightarrow> 'd inspectorState \<Rightarrow> error option" where
  "validate validateKind i =
     firstError
       [validateKind Pod (pods i),
        validateKind Secret (secrets i),
        validateKind ServiceAccount (serviceAccounts i),
        validateKind PersistentVolumeClaim (persistentVolumeClaims i),
        validateKind Service (services i),
        validateKind Node (nodes i),
        validateKind PodDisruptionBudget (podDisruptionBudgets i),
        validateKind ServiceMonitor (serviceMonitors i),
        validateKind ArangoMember (arangoMembers i),
        validateKind ArangoTask (arangoTasks i),
        validateKind ArangoClusterSynchronization (arangoClusterSynchronizations i),
        validateKind Endpoints (endpoints i)]"

text \<open>
  The body of one loader goroutine, on the working copy \<open>n\<close>: skipped when the throttle of
  its component says so, otherwise \<open>Load\<close> followed by the deferred \<open>Delay\<close> on that throttle.
\<close>

definition loadOne ::
  "refreshEnv \<Rightarrow> 'd inspectorLoader \<Rightarrow> 'd inspectorState \<times> counters \<Rightarrow> 'd inspectorState \<times> counters" where
  "loadOne env l s =
     (case s of
        (n, cs) \<Rightarrow>
          (let c = Component l; t = Get (throttles n) c in
           if \<not> Throttle_ok (nowThrottle env) t then (n, cs)
           else (let n' = Load l n in
                 case Delay (nowDelay env) t cs of
                   (t', cs') \<Rightarrow> (n'\<lparr>throttles := Put (throttles n') c t'\<rparr>, cs'))))"

text \<open>
  The working copy once the wait group is done. The goroutines run concurrently, each on
  the kind of its loader; the model runs them in the order of the list.
\<close>

definition loaded ::
  "refreshEnv \<Rightarrow> 'd inspectorLoader list \<Rightarrow> 'd inspectorState \<Rightarrow> counters \<Rightarrow> 'd inspectorState \<times> counters" where
  "loaded env loaders i cs =
     fold (loadOne env) loaders
       ((copyCore i)
          \<lparr>versionInfo := (case ServerVersion env of Inl e \<Rightarrow> '''' | Inr v \<Rightarrow> TrimPrefix v ''v''),
           deploymentResult := Some \<lparr>depl = fst (GetDeployment env), err_d = snd (GetDeployment env)\<rparr>\<rparr>,
        cs)"

text \<open>
  \<open>refreshInThreads\<close> returns the error, the visible inspector state after the call and the
  store of shared counters.
\<close>

definition refreshInThreads ::
  "(Component \<Rightarrow> 'd option \<Rightarrow> error option) \<Rightarrow> refreshEnv \<Rightarrow> 'd inspectorLoader list \<Rightarrow>
     'd inspectorState \<Rightarrow> counters \<Rightarrow> error option \<times> 'd inspectorState \<times> counters" where
  "refreshInThreads validateKind env loaders i cs =
     (case loaded env loaders i cs of
        (n, cs') \<Rightarrow>
          (case firstError (map (\<lambda>l. Verify l n) loaders) of
             Some e \<Rightarrow> (Some e, i, cs')
           | None \<Rightarrow>
               (case validate validateKind n of
                  Some e \<Rightarrow> (Some e, i, cs')
                | None \<Rightarrow>
                    (None,
                     (fold (\<lambda>l to. Copy l n to True) loaders i)
                       \<lparr>deploymentResult := deploymentResult n,
                        throttles := throttles n,
                        last_i := nowLast env,
                        initialised := True\<rparr>,
                     cs'))))"

section \<open>The inspection loop and immutable spec fields (pkg/deployment)\<close>

subsection \<open>Objects read by an inspection\<close>

text \<open>
  Modelled from the spec: the declaration of \<open>api.DeploymentSpec\<close> is not among the sources
  at hand. This is the Desired Spec of section 3 of the specification with its immutable
  fields, the storage engine, the encryption key reference and the deployment mode, named
  as the test \<open>tests/immutable\_test.go\<close> writes them (\<open>spec.Mode\<close>, \<open>spec.StorageEngine\<close>,
  \<open>spec.RocksDB.Encryption.KeySecretName\<close>); everything else is the one field \<open>Mutable\<close>.
\<close>

datatype StorageEngine = StorageEngineRocksDB | StorageEngineMMFiles

datatype DeploymentMode = DeploymentModeSingle | DeploymentModeActiveFailover | DeploymentModeCluster

record DesiredSpec =
  Mode :: DeploymentMode
  StorageEngine :: StorageEngine
  KeySecretName :: string
  Mutable :: string

text \<open>
  Modelled from the spec: the declarations of \<open>api.Condition\<close>, \<open>api.ConditionList\<close> and
  \<open>api.DeploymentStatus\<close> are not among the sources at hand. A condition has a type, a
  status, a reason, a message and a hash (section 3); the code only asks whether a status
  is true, so the status is a boolean. A condition list is a list searched by type:
  \<open>Get\<close> yields the first condition of a type, \<open>IsTrue\<close> of a missing condition is false.
  The status keeps what the inspection reads: the accepted spec and its version (both
  nilable), the applied version, the conditions, the plan, and per member whether a
  restart or a volume resize is pending.
\<close>

datatype ConditionType =
  SpecAccepted | UpToDate | Reachable | Maintenance | SecretsChanged | BootstrapCompleted

record Condition =
  Type_c :: ConditionType
  Status_c :: bool
  Reason :: string
  Message :: string
  Hash :: string

record MemberConditions =
  Restart :: bool
  PendingRestart :: bool
  PVCResizePending :: bool

record DeploymentStatus =
  AcceptedSpec :: "DesiredSpec option"
  AcceptedSpecVersion :: "string option"
  AppliedVersion :: string
  Conditions :: "Condition list"
  Plan :: "Action list"
  Members :: "MemberConditions list"

definition Get_c :: "Condition list \<Rightarrow> ConditionType \<Rightarrow> Condition option" where
  "Get_c cl t = find (\<lambda>c. Type_c c = t) cl"

definition IsTrue :: "Condition option \<Rightarrow> bool" where
  "IsTrue c = (case c of None \<Rightarrow> False | Some x \<Rightarrow> Status_c x)"

definition IsTrue_c :: "Condition list \<Rightarrow> ConditionType \<Rightarrow> bool" where
  "IsTrue_c cl t = IsTrue (Get_c cl t)"

definition IsPlanEmpty :: "DeploymentStatus \<Rightarrow> bool" where
  "IsPlanEmpty s = (Plan s = [])"

text \<open>
  Modelled from the spec: \<open>ConditionList.UpdateWithHash\<close>, which writes status, reason,
  message and hash of the condition of a type, adding the condition when it is missing.
\<close>

fun UpdateWithHash_c ::
  "Condition list \<Rightarrow> ConditionType \<Rightarrow> bool \<Rightarrow> string \<Rightarrow> string \<Rightarrow> string \<Rightarrow> Condition list" where
  "UpdateWithHash_c [] t v r m h =
     [\<lparr>Type_c = t, Status_c = v, Reason = r, Message = m, Hash = h\<rparr>]"
| "UpdateWithHash_c (c # cl) t v r m h =
     (if Type_c c = t then \<lparr>Type_c = t, Status_c = v, Reason = r, Message = m, Hash = h\<rparr> # cl
      else c # UpdateWithHash_c cl t v r m h)"

text \<open>
  The deployment object as the resource cache returns it: the metadata the inspection
  looks at, the spec and the status.
\<close>

record DeploymentObject =
  Annotations :: "string \<rightharpoonup> string"
  DeletionTimestamp :: "Time option"
  Finalizers :: "string list"
  Spec_d :: DesiredSpec
  Status_d :: DeploymentStatus

text \<open>The fields of \<open>Deployment\<close> that an inspection reads or writes.\<close>

record Deployment =
  currentObject :: "DeploymentObject option"
  currentObjectStatus :: "DeploymentStatus option"
  recentInspectionErrors :: nat
  clusterScalingIntegration :: bool
  haveServiceMonitorCRD :: bool

subsection \<open>What an inspection writes\<close>

text \<open>
  The closures handed to \<open>WithStatusUpdate\<close> by the code of this file, and everything an
  inspection sends out, in order. A status write is recorded with the answer it got.
  \<open>UpdateCRSpec\<close> is the write of the spec-acceptance check described below.
\<close>

datatype statusWrite =
  UpdateWithHash ConditionType bool string string string
| SetAppliedVersion string
| ClearPlan

datatype effect =
  StatusWrite statusWrite "error option"
| UpdateCRSpec DesiredSpec
| UpdateCRStatus DeploymentStatus
| ApplyPatchFinalizers "string list"
| ApplyPatchRemoveAnnotation string
| CreateEvent string error
| SendUpdateToCluster DesiredSpec
| Stop

subsection \<open>The collaborators of one inspection\<close>

text \<open>
  The methods of the resource cache, the resources, the reconciler and the other
  collaborators are declared outside the sources at hand. What each of them answers in the
  inspection at hand is an input: \<open>fails\<close> gives the error of a call (\<open>None\<close> for nil) and
  \<open>intervalOf\<close> the interval of the calls that return one. Their own writes are not part of
  the model. \<open>util.Interval\<close> is a duration; \<open>ReduceTo\<close> keeps the smaller of two intervals.
  The remaining fields are the constants of the package, the error tests \<open>IsNotFound\<close> and
  \<open>IsReconcile\<close>, \<open>Spec.Checksum\<close>, the status that \<open>d.GetStatus()\<close> returns when
  \<open>inspectDeploymentWithError\<close> starts, the answer of \<open>WithStatusUpdate\<close> to each write, and
  the flags that collaborators return next to their error. The last three fields belong
  to code that is missing altogether and are explained where they are used.
\<close>

type_synonym Interval = int

definition ReduceTo :: "Interval \<Rightarrow> Interval \<Rightarrow> Interval" where
  "ReduceTo i other = (if other < i then other else i)"

datatype step =
  Refresh
| RunDeploymentFinalizers
| UpdateCRStatusCall
| RunUpgrade
| CleanupTerminatedPods
| EnsureLeader
| EnsureArangoMembers
| EnsureServices
| EnsureSecrets
| ValidateSecretHashes
| ValidateLicenseKeySecret
| EnsureImages
| InspectPods
| InspectPVCs
| CheckMemberFailure
| CheckDeployment
| EnsureServiceMonitor
| EnsurePVCs
| EnsurePods
| EnsurePDBs
| EnsureAnnotations
| EnsureLabels
| ApplyPatchPlanClean
| CreatePlan
| ExecutePlan
| CreateAccessPackages
| SyncMembersInCluster
| CleanupTerminatedPodsAtEnd

record tickEnv =
  minInspectionInterval :: Interval
  maxInspectionInterval :: Interval
  MaintenanceAnnotation :: string
  PlanCleanAnnotation :: string
  fails :: "step \<Rightarrow> error option"
  intervalOf :: "step \<Rightarrow> Interval"
  IsNotFound :: "error \<Rightarrow> bool"
  IsReconcile :: "error \<Rightarrow> bool"
  Checksum :: "DesiredSpec \<Rightarrow> error + string"
  GetStatus :: DeploymentStatus
  WithStatusUpdate :: "statusWrite \<Rightarrow> error option"
  ensureFinalizers :: "bool \<times> string list"
  phaseFailed :: bool
  ensureImagesFlags :: "bool \<times> bool"
  planUpdated :: bool
  IsReachable :: bool
  retrySoon :: bool
  HealthOk :: bool
  resetReports :: "bool \<times> bool"
  acceptOtherwise :: "DeploymentObject \<Rightarrow> (bool \<times> bool \<times> error option) \<times> effect list"
  nilObjectOutcome :: "Interval option \<times> effect list"

subsection \<open>inspectDeploymentWithError\<close>

text \<open>
  A function of this file returns an interval and an error, or stops on a nil
  dereference: the return value is \<open>Some (interval, err)\<close>, the nil dereference is \<open>None\<close>.
  A part of the function either returns (\<open>Inl\<close>) or lets the function go on (\<open>Inr\<close>).
\<close>

type_synonym ret = "(Interval \<times> error option) option"

definition updateConditionWithHash ::
  "tickEnv \<Rightarrow> ConditionType \<Rightarrow> bool \<Rightarrow> string \<Rightarrow> string \<Rightarrow> string \<Rightarrow> error option \<times> effect list" where
  "updateConditionWithHash env conditionType v reason message hash =
     (let w = UpdateWithHash conditionType v reason message hash in
      (case WithStatusUpdate env w of
         None \<Rightarrow> None
       | Some e \<Rightarrow> Some (Wrap e ''Unable to update condition''),
       [StatusWrite w (WithStatusUpdate env w)]))"

text \<open>
  The end of a branch that updates a condition and asks for a prompt retry: the wrapped
  error when the update failed, nil otherwise.
\<close>

definition updated_then_retry ::
  "tickEnv \<Rightarrow> error option \<times> effect list \<Rightarrow> string \<Rightarrow> ret \<times> effect list" where
  "updated_then_retry env u msg =
     (case u of
        (Some e, effs) \<Rightarrow> (Some (minInspectionInterval env, Some (Wrap e msg)), effs)
      | (None, effs) \<Rightarrow> (Some (minInspectionInterval env, None), effs))"

text \<open>
  Lines 213 to 252: the checksum of the current spec against the accepted version, and the
  conditions \<open>SpecAccepted\<close> and \<open>UpToDate\<close> that follow from it. Going on yields the checksum.
\<close>

definition specGate ::
  "tickEnv \<Rightarrow> DesiredSpec \<Rightarrow> DeploymentStatus \<Rightarrow> (ret \<times> effect list) + string" where
  "specGate env currentSpec st =
     (case Checksum env currentSpec of
        Inl e \<Rightarrow>
          Inl (Some (minInspectionInterval env, Some (Wrap e ''Calculation of spec failed'')), [])
      | Inr currentChecksum \<Rightarrow>
          (let condition = Get_c (Conditions st) SpecAccepted;
               v = AcceptedSpecVersion st
           in if (v = None \<or> Some currentChecksum \<noteq> v) \<and> (condition = None \<or> IsTrue condition)
              then
                Inl (updated_then_retry env
                       (updateConditionWithHash env SpecAccepted False ''Spec Changed''
                          ''Spec Object changed. Waiting to be accepted'' currentChecksum)
                       ''Unable to update SpecAccepted condition'')
              else if v \<noteq> None \<and> v = Some currentChecksum \<and> \<not> IsTrue condition
              then
                Inl (updated_then_retry env
                       (updateConditionWithHash env SpecAccepted True ''Spec Accepted''
                          ''Spec Object accepted'' currentChecksum)
                       ''Unable to update SpecAccepted condition'')
              else if \<not> IsTrue_c (Conditions st) SpecAccepted \<and>
                      (Get_c (Conditions st) UpToDate = None \<or>
                       IsTrue (Get_c (Conditions st) UpToDate))
              then
                Inl (updated_then_retry env
                       (updateConditionWithHash env UpToDate False ''Spec Changed''
                          ''Spec Object changed. Waiting until plan will be applied''
                          currentChecksum)
                       ''Unable to update UpToDate condition'')
              else Inr currentChecksum))"

text \<open>One call that only returns an error: the wrapped error ends the inspection.\<close>

definition failed :: "tickEnv \<Rightarrow> step \<Rightarrow> string \<Rightarrow> ret option" where
  "failed env s msg =
     (case fails env s of
        Some e \<Rightarrow> Some (Some (minInspectionInterval env, Some (Wrap e msg)))
      | None \<Rightarrow> None)"

text \<open>Lines 521 to 551.\<close>

definition ensureResources :: "tickEnv \<Rightarrow> Deployment \<Rightarrow> Interval \<Rightarrow> Interval \<times> error option" where
  "ensureResources env d lastInterval =
     (case (if haveServiceMonitorCRD d then fails env EnsureServiceMonitor else None) of
        Some e \<Rightarrow> (minInspectionInterval env, Some (Wrap e ''Service monitor creation failed''))
      | None \<Rightarrow>
     (case fails env EnsurePVCs of
        Some e \<Rightarrow> (minInspectionInterval env, Some (Wrap e ''PVC creation failed''))
      | None \<Rightarrow>
     (case fails env EnsurePods of
        Some e \<Rightarrow> (minInspectionInterval env, Some (Wrap e ''Pod creation failed''))
      | None \<Rightarrow>
     (case fails env EnsurePDBs of
        Some e \<Rightarrow> (minInspectionInterval env, Some (Wrap e ''PDB creation failed''))
      | None \<Rightarrow>
     (case fails env EnsureAnnotations of
        Some e \<Rightarrow> (minInspectionInterval env, Some (Wrap e ''Annotation update failed''))
      | None \<Rightarrow>
     (case fails env EnsureLabels of
        Some e \<Rightarrow> (minInspectionInterval env, Some (Wrap e ''Labels update failed''))
      | None \<Rightarrow> (lastInterval, None)))))))"

text \<open>
  Lines 254 to 341: the resources. \<open>acs.Inspect\<close> and \<open>RefreshAgencyCache\<close> only log and count
  their error, and \<open>refreshMaintenanceTTL\<close> returns nothing; none of them decides how the
  inspection goes on, and they are left out. Going on yields the next interval.
\<close>

definition resourcesPhase ::
  "tickEnv \<Rightarrow> Deployment \<Rightarrow> DeploymentStatus \<Rightarrow> Interval \<Rightarrow> ret + Interval" where
  "resourcesPhase env d st lastInterval =
     (case failed env CleanupTerminatedPods ''Pod cleanup failed'' of
        Some r \<Rightarrow> Inl r
      | None \<Rightarrow>
     (let nextInterval = ReduceTo lastInterval (intervalOf env CleanupTerminatedPods) in
     (case failed env EnsureLeader ''Creating leaders failed'' of
        Some r \<Rightarrow> Inl r
      | None \<Rightarrow>
     (case failed env EnsureArangoMembers ''ArangoMember creation failed'' of
        Some r \<Rightarrow> Inl r
      | None \<Rightarrow>
     (case failed env EnsureServices ''Service creation failed'' of
        Some r \<Rightarrow> Inl r
      | None \<Rightarrow>
     (case failed env EnsureSecrets ''Secret creation failed'' of
        Some r \<Rightarrow> Inl r
      | None \<Rightarrow>
     (case failed env ValidateSecretHashes ''Secret hash validation failed'' of
        Some r \<Rightarrow> Inl r
      | None \<Rightarrow>
     (case failed env ValidateLicenseKeySecret ''License Key Secret invalid'' of
        Some r \<Rightarrow> Inl r
      | None \<Rightarrow>
     if IsTrue_c (Conditions st) SecretsChanged
     then Inl (Some (minInspectionInterval env, Some (Newf ''Secrets changed'')))
     else
     (case failed env EnsureImages ''Image detection failed'' of
        Some r \<Rightarrow> Inl r
      | None \<Rightarrow>
     if fst (ensureImagesFlags env) \<or> \<not> snd (ensureImagesFlags env)
     then Inl (Some (minInspectionInterval env, None))
     else
     (case failed env InspectPods ''Pod inspection failed'' of
        Some r \<Rightarrow> Inl r
      | None \<Rightarrow>
     (let nextInterval = ReduceTo nextInterval (intervalOf env InspectPods) in
     (case failed env InspectPVCs ''PVC inspection failed'' of
        Some r \<Rightarrow> Inl r
      | None \<Rightarrow>
     (let nextInterval = ReduceTo nextInterval (intervalOf env InspectPVCs) in
     (case failed env CheckMemberFailure ''Member failure detection failed'' of
        Some r \<Rightarrow> Inl r
      | None \<Rightarrow>
     (case failed env CheckDeployment ''Reconciler immediate actions failed'' of
        Some r \<Rightarrow> Inl r
      | None \<Rightarrow>
     (case ensureResources env d nextInterval of
        (_, Some e) \<Rightarrow>
          Inl (Some (minInspectionInterval env,
                     Some (Wrap e ''Reconciler resource recreation failed'')))
      | (interval, None) \<Rightarrow> Inr interval))))))))))))))))"

text \<open>Lines 343 to 360: the plan is cleaned on request, or created.\<close>

definition planPhase :: "tickEnv \<Rightarrow> DeploymentObject \<Rightarrow> (ret + unit) \<times> effect list" where
  "planPhase env obj =
     (if Annotations obj (PlanCleanAnnotation env) \<noteq> None then
        (case failed env ApplyPatchPlanClean ''Unable to create remove annotation patch'' of
           Some r \<Rightarrow> (Inl r, [])
         | None \<Rightarrow>
             (case WithStatusUpdate env ClearPlan of
                Some e \<Rightarrow>
                  (Inl (Some (minInspectionInterval env, Some (Wrap e ''Unable clean plan''))),
                   [ApplyPatchRemoveAnnotation (PlanCleanAnnotation env),
                    StatusWrite ClearPlan (Some e)])
              | None \<Rightarrow>
                  (Inr (),
                   [ApplyPatchRemoveAnnotation (PlanCleanAnnotation env),
                    StatusWrite ClearPlan None])))
      else
        (case failed env CreatePlan ''Plan creation failed'' of
           Some r \<Rightarrow> (Inl r, [])
         | None \<Rightarrow>
             if planUpdated env then (Inl (Some (minInspectionInterval env, None)), [])
             else (Inr (), [])))"

text \<open>Lines 438 to 477.\<close>

fun pendingMembers :: "MemberConditions list \<Rightarrow> bool \<times> string" where
  "pendingMembers [] = (True, '''')"
| "pendingMembers (m # ms) =
     (if Restart m \<or> PendingRestart m then (False, ''Pending restarts on members'')
      else if PVCResizePending m then (False, ''PVC is resizing'')
      else pendingMembers ms)"

definition isUpToDateStatus :: "DeploymentStatus \<Rightarrow> bool \<times> string" where
  "isUpToDateStatus st =
     (if \<not> IsPlanEmpty st then (False, ''Plan is not empty'')
      else if (case AcceptedSpecVersion st of None \<Rightarrow> True | Some v \<Rightarrow> AppliedVersion st \<noteq> v)
      then (False, ''Spec is not accepted'')
      else if \<not> IsTrue_c (Conditions st) SpecAccepted then (False, ''Spec is not accepted'')
      else if \<not> IsTrue_c (Conditions st) Reachable then (False, '''')
      else pendingMembers (Members st))"

text \<open>
  Lines 362 to 376: the condition \<open>Reachable\<close> follows the member state; a failed update
  ends the inspection, a successful one does not.
\<close>

definition reachablePhase :: "tickEnv \<Rightarrow> DeploymentStatus \<Rightarrow> (ret + unit) \<times> effect list" where
  "reachablePhase env st =
     (let reachableConditionState = IsTrue_c (Conditions st) Reachable in
      if IsReachable env = reachableConditionState then (Inr (), [])
      else
        (case updateConditionWithHash env Reachable (IsReachable env)
                (if IsReachable env then ''ArangoDB is reachable'' else ''ArangoDB is not reachable'')
                '''' '''' of
           (Some e, effs) \<Rightarrow>
             (Inl (Some (minInspectionInterval env,
                         Some (Wrap e ''Unable to update Reachable condition''))), effs)
         | (None, effs) \<Rightarrow> (Inr (), effs)))"

text \<open>
  Lines 378 to 405: the applied version, then the condition \<open>UpToDate\<close>. The hash of the
  condition is \<open>*v\<close>, the accepted version, which the code dereferences without a test.
\<close>

definition upToDatePhase ::
  "tickEnv \<Rightarrow> DeploymentObject \<Rightarrow> DeploymentStatus \<Rightarrow> (ret + unit) \<times> effect list" where
  "upToDatePhase env obj st =
     (if (case AcceptedSpecVersion st of
            None \<Rightarrow> False
          | Some v \<Rightarrow> IsPlanEmpty (Status_d obj) \<and> AppliedVersion st \<noteq> v)
      then
        (case AcceptedSpecVersion st of
           None \<Rightarrow> (Inl None, [])
         | Some v \<Rightarrow>
             (case WithStatusUpdate env (SetAppliedVersion v) of
                Some e \<Rightarrow>
                  (Inl (Some (minInspectionInterval env,
                              Some (Wrap e ''Unable to update UpToDate condition''))),
                   [StatusWrite (SetAppliedVersion v) (Some e)])
              | None \<Rightarrow>
                  (Inl (Some (minInspectionInterval env, None)),
                   [StatusWrite (SetAppliedVersion v) None])))
      else
        (case isUpToDateStatus st of
           (isUpToDate, reason) \<Rightarrow>
             if \<not> isUpToDate \<and> IsTrue_c (Conditions st) UpToDate then
               (case AcceptedSpecVersion st of
                  None \<Rightarrow> (Inl None, [])
                | Some v \<Rightarrow>
                    (case updated_then_retry env
                            (updateConditionWithHash env UpToDate False reason
                               ''There are pending operations in plan or members are in restart process''
                               v)
                            ''Unable to update UpToDate condition'' of
                       (r, effs) \<Rightarrow> (Inl r, effs)))
             else if isUpToDate \<and> \<not> IsTrue_c (Conditions st) UpToDate then
               (case AcceptedSpecVersion st of
                  None \<Rightarrow> (Inl None, [])
                | Some v \<Rightarrow>
                    (case updated_then_retry env
                            (updateConditionWithHash env UpToDate True ''Spec is Up To Date''
                               ''Spec is Up To Date'' v)
                            ''Unable to update UpToDate condition'' of
                       (r, effs) \<Rightarrow> (Inl r, effs)))
             else (Inr (), [])))"

text \<open>Lines 407 to 435: the plan is executed and the inspection ends.\<close>

definition executePhase :: "tickEnv \<Rightarrow> Interval \<Rightarrow> ret" where
  "executePhase env nextInterval =
     (case failed env ExecutePlan ''Plan execution failed'' of
        Some r \<Rightarrow> r
      | None \<Rightarrow>
     (let nextInterval = (if retrySoon env then minInspectionInterval env else nextInterval) in
     (case failed env CreateAccessPackages ''AccessPackage creation failed'' of
        Some r \<Rightarrow> r
      | None \<Rightarrow>
     (case (if HealthOk env
            then failed env SyncMembersInCluster ''Removed member cleanup failed'' else None) of
        Some r \<Rightarrow> r
      | None \<Rightarrow>
     (case failed env CleanupTerminatedPodsAtEnd ''Pod cleanup failed'' of
        Some r \<Rightarrow> r
      | None \<Rightarrow>
          Some (ReduceTo nextInterval (intervalOf env CleanupTerminatedPodsAtEnd), None))))))"

definition inspectDeploymentWithError ::
  "tickEnv \<Rightarrow> Deployment \<Rightarrow> DeploymentObject \<Rightarrow> Interval \<Rightarrow> ret \<times> effect list" where
  "inspectDeploymentWithError env d obj lastInterval =
     (let st = GetStatus env in
      case specGate env (Spec_d obj) st of
        Inl r \<Rightarrow> r
      | Inr currentChecksum \<Rightarrow>
     (case resourcesPhase env d st lastInterval of
        Inl r \<Rightarrow> (r, [])
      | Inr nextInterval \<Rightarrow>
     (case planPhase env obj of
        (Inl r, e1) \<Rightarrow> (r, e1)
      | (Inr _, e1) \<Rightarrow>
     (case reachablePhase env st of
        (Inl r, e2) \<Rightarrow> (r, e1 @ e2)
      | (Inr _, e2) \<Rightarrow>
     (case upToDatePhase env obj st of
        (Inl r, e3) \<Rightarrow> (r, e1 @ e2 @ e3)
      | (Inr _, e3) \<Rightarrow> (executePhase env nextInterval, e1 @ e2 @ e3))))))"

subsection \<open>The spec-acceptance check\<close>

definition immutableFields :: "DesiredSpec \<Rightarrow> DeploymentMode \<times> StorageEngine \<times> string" where
  "immutableFields s = (Mode s, StorageEngine s, KeySecretName s)"

text \<open>
  Modelled from the spec: \<open>DeploymentSpec.ResetImmutableFields\<close> is not among the sources at
  hand. Section 7 of the specification: "the core rewrites the field back to its
  last-accepted value". The mutable part of the target is kept.
\<close>

definition ResetImmutableFields :: "DesiredSpec \<Rightarrow> DesiredSpec \<Rightarrow> DesiredSpec" where
  "ResetImmutableFields accepted target =
     target\<lparr>Mode := Mode accepted, StorageEngine := StorageEngine accepted,
       KeySecretName := KeySecretName accepted\<rparr>"

text \<open>
  Modelled from the spec: \<open>Deployment.acceptNewSpec\<close> is not among the sources at hand; its
  call in \<open>inspectDeployment\<close> shows that it returns \<open>(canProceed, changed, err)\<close>. Sections 3
  and 7 of the specification say what it does when an immutable field of the object's spec
  differs from the accepted spec in the object's status: the change is detected, the
  stored spec is rewritten with the last accepted values (\<open>UpdateCRSpec\<close>), and the spec is
  neither accepted nor is an error raised. The specification does not say which flags the
  check reports after such a reset; they are the input \<open>resetReports\<close>. Every other case
  (no accepted spec yet, no change, a change of mutable fields only) is the input
  \<open>acceptOtherwise\<close>.
\<close>

definition acceptNewSpec ::
  "tickEnv \<Rightarrow> DeploymentObject \<Rightarrow> (bool \<times> bool \<times> error option) \<times> effect list" where
  "acceptNewSpec env obj =
     (case AcceptedSpec (Status_d obj) of
        None \<Rightarrow> acceptOtherwise env obj
      | Some accepted \<Rightarrow>
          if immutableFields (Spec_d obj) \<noteq> immutableFields accepted
          then ((fst (resetReports env), snd (resetReports env), None),
                [UpdateCRSpec (ResetImmutableFields accepted (Spec_d obj))])
          else acceptOtherwise env obj)"

subsection \<open>inspectDeployment\<close>

text \<open>
  \<open>inspectDeployment\<close> returns the next interval, or stops on a nil dereference (\<open>None\<close>);
  the model also returns what the inspection wrote and the deployment after it.
\<close>

text \<open>Lines 193 to 202: error bookkeeping and the final interval.\<close>

definition finish ::
  "tickEnv \<Rightarrow> Deployment \<Rightarrow> bool \<Rightarrow> Interval \<Rightarrow> effect list \<Rightarrow>
     Interval option \<times> effect list \<times> Deployment" where
  "finish env d hasError nextInterval effs =
     (if hasError then
        (if recentInspectionErrors d = 0
         then (Some (ReduceTo (minInspectionInterval env) (maxInspectionInterval env)), effs,
               d\<lparr>recentInspectionErrors := recentInspectionErrors d + 1\<rparr>)
         else (Some (ReduceTo nextInterval (maxInspectionInterval env)), effs, d))
      else (Some (ReduceTo nextInterval (maxInspectionInterval env)), effs,
            d\<lparr>recentInspectionErrors := 0\<rparr>))"

text \<open>Lines 131 to 139: the cluster is told of an accepted spec when the deployment is up to date.\<close>

definition notifyCluster :: "Deployment \<Rightarrow> effect list" where
  "notifyCluster d =
     (if clusterScalingIntegration d then
        (case currentObjectStatus d of
           None \<Rightarrow> []
         | Some c \<Rightarrow>
             (case AcceptedSpec c of
                None \<Rightarrow> []
              | Some a \<Rightarrow> if IsTrue_c (Conditions c) UpToDate then [SendUpdateToCluster a] else []))
      else [])"

text \<open>
  Lines 146 to 190, once the spec-acceptance check lets the inspection proceed. The status
  of the deployment is compared with the one of the object by equality, and is
  dereferenced: a nil status stops the inspection.
\<close>

definition proceed ::
  "tickEnv \<Rightarrow> Deployment \<Rightarrow> DeploymentObject \<Rightarrow> Interval \<Rightarrow> effect list \<Rightarrow>
     Interval option \<times> effect list \<times> Deployment" where
  "proceed env d obj lastInterval effs =
     (case currentObjectStatus d of
        None \<Rightarrow> (None, effs, d)
      | Some c \<Rightarrow>
          if c \<noteq> Status_d obj \<and> fails env UpdateCRStatusCall \<noteq> None
          then (Some (minInspectionInterval env), effs, d)
          else
            (let effs1 = effs @ (if c \<noteq> Status_d obj then [UpdateCRStatus c] else []);
                 d1 = d\<lparr>currentObject := Some obj\<rparr>
             in if phaseFailed env then (Some lastInterval, effs1, d1)
                else
                  (case fails env RunUpgrade of
                     Some e \<Rightarrow>
                       (Some (ReduceTo (minInspectionInterval env) (maxInspectionInterval env)),
                        effs1 @ [CreateEvent ''Upgrade failed'' e],
                        d1\<lparr>recentInspectionErrors := recentInspectionErrors d1 + 1\<rparr>)
                   | None \<Rightarrow>
                       (case inspectDeploymentWithError env d1 obj lastInterval of
                          (None, ew) \<Rightarrow> (None, effs1 @ ew, d1)
                        | (Some (inspectNextInterval, None), ew) \<Rightarrow>
                            finish env d1 False lastInterval (effs1 @ ew)
                        | (Some (inspectNextInterval, Some e), ew) \<Rightarrow>
                            if \<not> IsReconcile env e
                            then finish env d1 True inspectNextInterval
                                   (effs1 @ ew @ [CreateEvent ''Reconciliation failed'' e])
                            else finish env d1 False (minInspectionInterval env) (effs1 @ ew)))))"

text \<open>
  Lines 107 to 144: the maintenance annotation, the finalizers and the spec-acceptance
  check. \<open>ensureFinalizers\<close> says whether it changed the finalizers of the object, and to what.
\<close>

definition inspectObject ::
  "tickEnv \<Rightarrow> Deployment \<Rightarrow> DeploymentObject \<Rightarrow> Interval \<Rightarrow>
     Interval option \<times> effect list \<times> Deployment" where
  "inspectObject env d obj lastInterval =
     (if Annotations obj (MaintenanceAnnotation env) = Some ''true'' then (Some lastInterval, [], d)
      else
        (let updated = (if fst (ensureFinalizers env)
                        then obj\<lparr>Finalizers := snd (ensureFinalizers env)\<rparr> else obj);
             e0 = (if fst (ensureFinalizers env)
                   then [ApplyPatchFinalizers (snd (ensureFinalizers env))] else [])
         in case acceptNewSpec env updated of
              ((canProceed, changed, er), ea) \<Rightarrow>
                if er \<noteq> None then
                  (if \<not> canProceed then (Some (minInspectionInterval env), e0 @ ea, d)
                   else proceed env d updated lastInterval (e0 @ ea))
                else if changed then
                  (Some (minInspectionInterval env), e0 @ ea @ notifyCluster d, d)
                else if \<not> canProceed then (Some (minInspectionInterval env), e0 @ ea, d)
                else proceed env d updated lastInterval (e0 @ ea)))"

text \<open>
  Lines 72 to 106. \<open>got\<close> is what \<open>GetCurrentArangoDeployment\<close> returns. With a nil object and
  an error that is not "not found", the code hands the nil object to functions that are not
  among the sources at hand; how that inspection ends is the input \<open>nilObjectOutcome\<close>.
\<close>

definition inspectDeployment ::
  "tickEnv \<Rightarrow> Deployment \<Rightarrow> DeploymentObject option \<times> error option \<Rightarrow> Interval \<Rightarrow>
     Interval option \<times> effect list \<times> Deployment" where
  "inspectDeployment env d got lastInterval =
     (if fails env Refresh \<noteq> None then (Some (minInspectionInterval env), [], d)
      else
        (case got of
           (updated, er) \<Rightarrow>
             if (case er of None \<Rightarrow> False | Some e \<Rightarrow> IsNotFound env e)
             then (Some lastInterval, [Stop], d)
             else
               (case updated of
                  None \<Rightarrow> (fst (nilObjectOutcome env), snd (nilObjectOutcome env), d)
                | Some obj \<Rightarrow>
                    if DeletionTimestamp obj \<noteq> None then
                      (case fails env RunDeploymentFinalizers of
                         Some e \<Rightarrow>
                           finish env d True lastInterval
                             [CreateEvent ''ArangoDeployment finalizer inspection failed'' e]
                       | None \<Rightarrow> finish env d False lastInterval [])
                    else inspectObject env d obj lastInterval)))"

subsection \<open>The stored object\<close>

text \<open>
  What the writes of an inspection do to the object stored in the platform. A status write
  that was refused changes nothing; events and notifications do not touch the object.
\<close>

fun applyStatusWrite :: "statusWrite \<Rightarrow> DeploymentStatus \<Rightarrow> DeploymentStatus" where
  "applyStatusWrite (UpdateWithHash t v r m h) st =
     st\<lparr>Conditions := UpdateWithHash_c (Conditions st) t v r m h\<rparr>"
| "applyStatusWrite (SetAppliedVersion v) st = st\<lparr>AppliedVersion := v\<rparr>"
| "applyStatusWrite ClearPlan st = st\<lparr>Plan := []\<rparr>"

fun applyEffect :: "effect \<Rightarrow> DeploymentObject \<Rightarrow> DeploymentObject" where
  "applyEffect (StatusWrite w None) obj = obj\<lparr>Status_d := applyStatusWrite w (Status_d obj)\<rparr>"
| "applyEffect (StatusWrite w (Some e)) obj = obj"
| "applyEffect (UpdateCRSpec s) obj = obj\<lparr>Spec_d := s\<rparr>"
| "applyEffect (UpdateCRStatus st) obj = obj\<lparr>Status_d := st\<rparr>"
| "applyEffect (ApplyPatchFinalizers f) obj = obj\<lparr>Finalizers := f\<rparr>"
| "applyEffect (ApplyPatchRemoveAnnotation k) obj = obj\<lparr>Annotations := (Annotations obj)(k := None)\<rparr>"
| "applyEffect (CreateEvent m e) obj = obj"
| "applyEffect (SendUpdateToCluster s) obj = obj"
| "applyEffect Stop obj = obj"

definition storeAfter :: "effect list \<Rightarrow> DeploymentObject \<Rightarrow> DeploymentObject" where
  "storeAfter effs obj = fold applyEffect effs obj"

text \<open>
  One reconciliation tick on the stored object: the cache hands the stored object to the
  inspection, and the writes of the inspection reach the store.
\<close>

definition tickOnStore ::
  "tickEnv \<Rightarrow> Interval \<Rightarrow> Deployment \<times> DeploymentObject \<Rightarrow> Deployment \<times> DeploymentObject" where
  "tickOnStore env lastInterval s =
     (case s of
        (d, obj) \<Rightarrow>
          (case inspectDeployment env d (Some obj, None) lastInterval of
             (r, effs, d') \<Rightarrow> (d', storeAfter effs obj)))"

text \<open>A write that makes the condition \<open>UpToDate\<close> true.\<close>

fun isUpToDateTrue :: "effect \<Rightarrow> bool" where
  "isUpToDateTrue (StatusWrite (UpdateWithHash t v r m h) a) = (t = UpToDate \<and> v)"
| "isUpToDateTrue _ = False"

subsection \<open>Concrete agency rounds\<close>

text \<open>
  Small rounds on which the statements below are evaluated: one agent \<open>A\<close> behind
  connection 1 that reports itself leader at a given commit index, a round in which nobody
  names a leader, and a three-agent round in which \<open>C\<close> does not answer.
\<close>

definition reply_at :: "64 word \<Rightarrow> string list \<Rightarrow> agencyReply" where
  "reply_at ci act c =
     Inr \<lparr>LeaderId = Some ''A'', CommitIndex = ci, ConfigurationID = ''A'', Pool = [],
          Active = act\<rparr>"

definition reply_no_leader :: agencyReply where
  "reply_no_leader c =
     Inr \<lparr>LeaderId = None, CommitIndex = 7, ConfigurationID = ''A'', Pool = [], Active = []\<rparr>"

definition reply_three :: agencyReply where
  "reply_three c =
     (if c = Connection 3 then Inl (Newf ''timeout'')
      else Inr \<lparr>LeaderId = Some ''A'', CommitIndex = 42, ConfigurationID = ''A'', Pool = [],
                Active = [''A'', ''B'', ''C'']\<rparr>)"

definition body_reply :: "string \<Rightarrow> stateReply" where
  "body_reply s cn = Inr (State s)"

definition cache_at :: "64 word \<Rightarrow> cache" where
  "cache_at ci =
     \<lparr>valid = True, commitIndex = ci, data = State ''old'',
      set_c = \<lparr>clients = [(''A'', Connection 1)], health = Map.empty, result = None\<rparr>\<rparr>"

definition set_three :: agentSet where
  "set_three =
     \<lparr>clients = [(''C'', Connection 3), (''B'', Connection 2), (''A'', Connection 1)],
      health = Map.empty, result = None\<rparr>"

subsection \<open>Concrete timeouts and a concrete wrapped connection\<close>

definition registry_demo :: "ActionType \<rightharpoonup> Timeout" where
  "registry_demo = [''AddMember'' \<mapsto> Timeout 600, ''DisableClusterScaling'' \<mapsto> Timeout 0]"

definition spec_demo :: DeploymentSpec where
  "spec_demo = \<lparr>Timeouts = Some \<lparr>Actions = [''AddMember'' \<mapsto> Timeout 5, ''default'' \<mapsto> Timeout 7]\<rparr>\<rparr>"

text \<open>
  A world that counts the calls made so far. Connection 1 carries stale credentials and
  answers 401; \<open>SetAuthentication\<close> on it yields connection 2, which in \<open>driver_ok\<close> answers
  200 and in \<open>driver_denied\<close> answers 401 again.
\<close>

definition driver_ok :: "nat driver" where
  "driver_ok =
     \<lparr>connDo = (\<lambda>c req w.
         (if c = Connection 2 then Inr \<lparr>StatusCode = 200, Body = ''ok''\<rparr>
          else Inr \<lparr>StatusCode = 401, Body = ''unauthorized''\<rparr>, Suc w)),
      connSetAuthentication = (\<lambda>c au w. (Inr (Connection 2), Suc w))\<rparr>"

definition driver_denied :: "nat driver" where
  "driver_denied =
     \<lparr>connDo = (\<lambda>c req w. (Inr \<lparr>StatusCode = 401, Body = ''unauthorized''\<rparr>, Suc w)),
      connSetAuthentication = (\<lambda>c au w. (Inr (Connection 2), Suc w))\<rparr>"

definition auth_ok :: "nat \<Rightarrow> (error + Authentication) \<times> nat" where
  "auth_ok w = (Inr (Authentication ''bearer''), Suc w)"

definition auth_broken :: "nat \<Rightarrow> (error + Authentication) \<times> nat" where
  "auth_broken w = (Inl (Newf ''no secret''), Suc w)"

definition request_demo :: Request where
  "request_demo = Request ''GET'' ''/_api/version''"

subsection \<open>A concrete image update\<close>

text \<open>
  One member \<open>PRMR-1\<close> in phase \<open>Created\<close> with pod \<open>pod-1\<close>, whose container \<open>server\<close>
  runs \<open>arangodb:3.9.1\<close>; the action asks for the image in its parameter. \<open>member_ok\<close> is
  an ArangoMember whose spec and status templates list that container.
\<close>

definition decls_demo :: reconcileDecls where
  "decls_demo =
     \<lparr>ContainerName = ''name'', ContainerImage = ''image'',
      IsReady = (\<lambda>p. p = ''Created''),
      ArangoMemberName = (\<lambda>m name group. name @ ''-'' @ group @ ''-'' @ ID m)\<rparr>"

definition pod_demo :: Pod where
  "pod_demo =
     \<lparr>ObjectName = ''pod-1'',
      Spec = \<lparr>Containers = [\<lparr>Name = ''server'', Image = ''arangodb:3.9.1''\<rparr>]\<rparr>\<rparr>"

definition template_demo :: "ArangoMemberPodTemplate option" where
  "template_demo =
     Some \<lparr>PodSpec = Some \<lparr>Spec_t = \<lparr>Containers = [\<lparr>Name = ''server'', Image = ''arangodb:3.9.1''\<rparr>]\<rparr>\<rparr>\<rparr>"

definition member_ok :: ArangoMember where
  "member_ok = \<lparr>Spec_m = \<lparr>Template = template_demo\<rparr>, Status_m = \<lparr>Template_s = template_demo\<rparr>\<rparr>"

definition inspector_demo :: "(string \<rightharpoonup> ArangoMember) \<Rightarrow> Inspector" where
  "inspector_demo members = \<lparr>PodGetSimple = [''pod-1'' \<mapsto> pod_demo], ArangoMemberGetSimple = members\<rparr>"

definition action_demo :: "string \<Rightarrow> (string \<rightharpoonup> ArangoMember) \<Rightarrow> actionImpl" where
  "action_demo img members =
     \<lparr>action = \<lparr>MemberID = ''PRMR-1'', Group = ''dbserver'',
                 Params = [''name'' \<mapsto> ''server'', ''image'' \<mapsto> img]\<rparr>,
      actionCtx =
        \<lparr>GetMemberStatusByID =
           [''PRMR-1'' \<mapsto> \<lparr>ID = ''PRMR-1'', ClusterID = '''', Phase = ''Created'', PodName = ''pod-1''\<rparr>],
         ClusterCache = ['''' \<mapsto> inspector_demo members],
         CurrentClusterCache = inspector_demo members,
         GetName = ''depl'',
         PodsModUpdate = (\<lambda>p. None)\<rparr>\<rparr>"

definition no_members :: "string \<rightharpoonup> ArangoMember" where
  "no_members = Map.empty"

definition members_ok :: "string \<rightharpoonup> ArangoMember" where
  "members_ok = [''depl-dbserver-PRMR-1'' \<mapsto> member_ok]"

subsection \<open>A concrete refresh\<close>

text \<open>
  The inspector as \<open>NewInspector\<close> makes it without throttles (twelve \<open>alwaysThrottle\<close>
  objects, at addresses 0 to 11), one loader for pods that stores a listing and whose
  \<open>Verify\<close> answers as told, and two \<open>validate\<close> parameters: one that accepts everything and
  one that rejects a nil inspector.
\<close>

definition always_components :: throttleComponents where
  "always_components =
     \<lparr>arangoClusterSynchronization = Always 0, arangoMember = Always 1, arangoTask = Always 2,
      node = Always 3, persistentVolumeClaim = Always 4, pod_t = Always 5,
      podDisruptionBudget = Always 6, secret = Always 7, service = Always 8,
      serviceAccount = Always 9, serviceMonitor = Always 10, endpoints_t = Always 11\<rparr>"

definition state_demo :: "nat inspectorState" where
  "state_demo =
     \<lparr>namespace = ''ns'', deploymentName = ''depl'', deploymentResult = None,
      client = Client 0, last_i = zeroTime,
      pods = None, secrets = None, persistentVolumeClaims = None, services = None,
      serviceAccounts = None, nodes = None, podDisruptionBudgets = None,
      serviceMonitors = None, arangoMembers = None, arangoTasks = None,
      arangoClusterSynchronizations = None, endpoints = None,
      throttles = always_components, versionInfo = '''', initialised = False\<rparr>"

definition pods_loader :: "nat \<Rightarrow> error option \<Rightarrow> nat inspectorLoader" where
  "pods_loader listing verdict =
     \<lparr>Name_l = ''pods'', Component = Pod,
      Load = (\<lambda>n. n\<lparr>pods := Some listing\<rparr>),
      Verify = (\<lambda>n. verdict),
      Copy = (\<lambda>from to override. to\<lparr>pods := pods from\<rparr>)\<rparr>"

definition env_demo :: refreshEnv where
  "env_demo =
     \<lparr>ServerVersion = Inr ''v1.21.1'',
      GetDeployment = (Some (ArangoDeployment ''depl''), None),
      nowThrottle = 1000, nowDelay = 1001, nowLast = 1002\<rparr>"

definition validate_any :: "Component \<Rightarrow> nat option \<Rightarrow> error option" where
  "validate_any c d = None"

definition validate_present :: "Component \<Rightarrow> nat option \<Rightarrow> error option" where
  "validate_present c d = (if d = None then Some (Newf ''Inspector is nil'') else None)"

definition no_counts :: counters where
  "no_counts a = 0"

subsection \<open>A concrete deployment\<close>

text \<open>
  The deployment of the integration test: mode Cluster, RocksDB, an encryption key secret;
  that spec is accepted and applied, the plan is empty and the deployment is up to date.
  An external actor has set the storage engine of the stored spec to MMFiles. Every
  collaborator succeeds, and the spec-acceptance check reports after a reset that the
  inspection can proceed and that nothing was accepted.
\<close>

definition spec_accepted_demo :: DesiredSpec where
  "spec_accepted_demo =
     \<lparr>Mode = DeploymentModeCluster, StorageEngine = StorageEngineRocksDB,
      KeySecretName = ''test.encryption.keySecretName'', Mutable = ''dbservers=3''\<rparr>"

definition spec_changed_demo :: DesiredSpec where
  "spec_changed_demo = spec_accepted_demo\<lparr>StorageEngine := StorageEngineMMFiles\<rparr>"

definition hash_demo :: "DesiredSpec \<Rightarrow> string" where
  "hash_demo s =
     (case StorageEngine s of StorageEngineRocksDB \<Rightarrow> ''rocksdb'' | StorageEngineMMFiles \<Rightarrow> ''mmfiles'')
     @ ''/'' @ KeySecretName s @ ''/'' @ Mutable s"

definition checksum_demo :: "DesiredSpec \<Rightarrow> error + string" where
  "checksum_demo s = Inr (hash_demo s)"

definition condition_demo :: "ConditionType \<Rightarrow> Condition" where
  "condition_demo t =
     \<lparr>Type_c = t, Status_c = True, Reason = ''ok'', Message = ''ok'',
      Hash = ''rocksdb/test.encryption.keySecretName/dbservers=3''\<rparr>"

definition status_demo :: DeploymentStatus where
  "status_demo =
     \<lparr>AcceptedSpec = Some spec_accepted_demo,
      AcceptedSpecVersion = Some ''rocksdb/test.encryption.keySecretName/dbservers=3'',
      AppliedVersion = ''rocksdb/test.encryption.keySecretName/dbservers=3'',
      Conditions = [condition_demo SpecAccepted, condition_demo UpToDate, condition_demo Reachable],
      Plan = [],
      Members = []\<rparr>"

definition maintenance_on :: "string \<rightharpoonup> string" where
  "maintenance_on = [''deployment.arangodb.com/maintenance'' \<mapsto> ''true'']"

definition no_annotations :: "string \<rightharpoonup> string" where
  "no_annotations = Map.empty"

definition object_demo :: "(string \<rightharpoonup> string) \<Rightarrow> DeploymentObject" where
  "object_demo ann =
     \<lparr>Annotations = ann, DeletionTimestamp = None, Finalizers = [],
      Spec_d = spec_changed_demo, Status_d = status_demo\<rparr>"

definition deployment_demo :: Deployment where
  "deployment_demo =
     \<lparr>currentObject = None, currentObjectStatus = Some status_demo, recentInspectionErrors = 0,
      clusterScalingIntegration = False, haveServiceMonitorCRD = False\<rparr>"

definition all_succeed :: "step \<Rightarrow> error option" where
  "all_succeed s = None"

definition every_minute :: "step \<Rightarrow> Interval" where
  "every_minute s = 60"

definition never :: "error \<Rightarrow> bool" where
  "never e = False"

definition writes_accepted :: "statusWrite \<Rightarrow> error option" where
  "writes_accepted w = None"

definition nothing_to_accept :: "DeploymentObject \<Rightarrow> (bool \<times> bool \<times> error option) \<times> effect list" where
  "nothing_to_accept obj = ((True, False, None), [])"

definition tickEnv_demo :: tickEnv where
  "tickEnv_demo =
     \<lparr>minInspectionInterval = 1, maxInspectionInterval = 60,
      MaintenanceAnnotation = ''deployment.arangodb.com/maintenance'',
      PlanCleanAnnotation = ''plan.deployment.arangodb.com/clean'',
      fails = all_succeed, intervalOf = every_minute,
      IsNotFound = never, IsReconcile = never,
      Checksum = checksum_demo, GetStatus = status_demo, WithStatusUpdate = writes_accepted,
      ensureFinalizers = (False, []), phaseFailed = False, ensureImagesFlags = (False, True),
      planUpdated = False, IsReachable = True, retrySoon = False, HealthOk = True,
      resetReports = (True, False), acceptOtherwise = nothing_to_accept,
      nilObjectOutcome = (None, [])\<rparr>"

section \<open>Properties of the agency cache\<close>

subsection \<open>Auxiliary facts\<close>

lemma findLeader_None_iff:
  "findLeader r = None \<longleftrightarrow>
     (\<forall>(k, v) \<in> set r. err v \<noteq> None \<or> config v = None \<or>
        (\<exists>cfg. config v = Some cfg \<and> LeaderId cfg = None))"
  by (induction r rule: findLeader.induct) (auto split: option.splits)

lemma refresh_ok_result:
  "refresh g a = (None, a') \<Longrightarrow> \<exists>z. result a' = Some z \<and> conn_r z = None"
  by (auto simp: refresh_def Let_def split: option.splits)

lemma polls_no_LoadState: "LoadState x \<notin> (\<lambda>(k, y). GetAgencyConfig y) ` set cl"
  by auto

lemma Reload_calls:
  assumes "refresh g (set_c c) = (None, s)" and "Leader s = (i, ci, cn, ok)"
  shows "snd (snd (Reload g l c)) =
     map (\<lambda>(k, x). GetAgencyConfig x) (clients (set_c c)) @
       (if ok \<and> \<not> (ci = commitIndex c \<and> valid c) then [LoadState cn] else [])"
  using assms by (cases "l cn") (simp_all add: Reload_def Let_def)

lemma Reload_LoadState_arg:
  assumes "refresh g (set_c c) = (None, s)" and "Leader s = (i, ci, cn, ok)"
    and "LoadState x \<in> set (snd (snd (Reload g l c)))"
  shows "x = cn"
  using assms(3) unfolding Reload_calls [OF assms(1,2)]
  by (auto simp: polls_no_LoadState split: if_splits)

lemma Reload_cases:
  "Reload g l c = (r, c', t) \<Longrightarrow>
     (data c' = data c \<and> valid c' = valid c \<and> commitIndex c' = commitIndex c \<and>
      (\<forall>x. LoadState x \<notin> set t))
   \<or> (\<exists>ci cn. observedCommitIndex g c = Some ci \<and> (ci \<noteq> commitIndex c \<or> \<not> valid c) \<and>
        t = map (\<lambda>(k, x). GetAgencyConfig x) (clients (set_c c)) @ [LoadState cn] \<and>
        ((\<exists>e. l cn = Inl e \<and> r = (ci, Some e) \<and> data c' = data c \<and> \<not> valid c' \<and>
              commitIndex c' = commitIndex c)
         \<or> (\<exists>d. l cn = Inr d \<and> r = (ci, None) \<and> data c' = d \<and> valid c' \<and>
              commitIndex c' = ci)))"
  by (auto simp: Reload_def observedCommitIndex_def Let_def
           split: option.splits prod.splits if_splits sum.splits)

lemma markActive_True:
  "markActive r z h x = Some True \<longleftrightarrow>
     h x = Some True \<or> (x = z \<and> (\<exists>q. map_of r x = Some q \<and> err q = None))"
  by (cases "map_of r z") (auto simp: markActive_def)

lemma fold_markActive:
  "fold (markActive r) zs h x = Some True \<longleftrightarrow>
     h x = Some True \<or> (x \<in> set zs \<and> (\<exists>q. map_of r x = Some q \<and> err q = None))"
proof (induction zs arbitrary: h)
  case Nil
  show ?case by simp
next
  case (Cons z zs)
  show ?case
    unfolding fold_simps Cons.IH markActive_True by auto
qed

lemma fold_markActive_False:
  "fold (markActive r) zs h x = Some False \<longleftrightarrow>
     h x = Some False \<and> \<not> (x \<in> set zs \<and> (\<exists>q. map_of r x = Some q \<and> err q = None))"
  by (induction zs arbitrary: h) (auto simp: markActive_def split: option.splits)

lemma map_of_getAgencyConfigResults:
  "map_of (getAgencyConfigResults g cl) x = map_option (getAgencyConfigResult g) (map_of cl x)"
  by (induction cl) (auto simp: getAgencyConfigResults_def)

lemma err_getAgencyConfigResult:
  "err (getAgencyConfigResult g c) = None \<longleftrightarrow> (\<exists>cfg. g c = Inr cfg)"
  by (cases "g c") (simp_all add: getAgencyConfigResult_def)

lemma answered_iff:
  "(\<exists>q. map_of (getAgencyConfigResults g cl) x = Some q \<and> err q = None) \<longleftrightarrow>
   (\<exists>c cfg. map_of cl x = Some c \<and> g c = Inr cfg)"
  by (cases "map_of cl x") (simp_all add: map_of_getAgencyConfigResults err_getAgencyConfigResult)

lemma refresh_reply_at:
  "refresh (reply_at ci act) (set_c (cache_at cj)) =
     (None,
      \<lparr>clients = [(''A'', Connection 1)],
       health = fold (markActive (getAgencyConfigResults (reply_at ci act) [(''A'', Connection 1)]))
                  act [''A'' \<mapsto> True],
       result = Some \<lparr>id_r = ''A'',
                      result_r = \<lparr>LeaderId = Some ''A'', CommitIndex = ci, ConfigurationID = ''A'',
                                  Pool = [], Active = act\<rparr>,
                      conn_r = None\<rparr>\<rparr>)"
  by (simp add: refresh_def reply_at_def cache_at_def getAgencyConfigResults_def
        getAgencyConfigResult_def)

lemma observed_reply_at:
  "observedCommitIndex (reply_at ci act) (cache_at cj) = Some ci"
  by (simp add: observedCommitIndex_def refresh_reply_at Leader_def)

lemma Reload_reply_at_same:
  "fst (Reload (reply_at ci act) (body_reply s) (cache_at ci)) = (ci, None)
   \<and> data (fst (snd (Reload (reply_at ci act) (body_reply s) (cache_at ci)))) = State ''old''
   \<and> valid (fst (snd (Reload (reply_at ci act) (body_reply s) (cache_at ci))))
   \<and> snd (snd (Reload (reply_at ci act) (body_reply s) (cache_at ci))) = [GetAgencyConfig (Connection 1)]"
  by (simp add: Reload_def refresh_reply_at Leader_def Let_def)
     (simp add: cache_at_def)

lemma Reload_reply_at_other:
  "ci \<noteq> cj \<Longrightarrow>
   fst (Reload (reply_at ci act) (body_reply s) (cache_at cj)) = (ci, None)
   \<and> data (fst (snd (Reload (reply_at ci act) (body_reply s) (cache_at cj)))) = State s
   \<and> valid (fst (snd (Reload (reply_at ci act) (body_reply s) (cache_at cj))))
   \<and> snd (snd (Reload (reply_at ci act) (body_reply s) (cache_at cj))) = [GetAgencyConfig (Connection 1), LoadState None]"
  by (simp add: Reload_def refresh_reply_at Leader_def Let_def body_reply_def)
     (simp add: cache_at_def)

lemma refresh_set_three:
  "refresh reply_three set_three =
     (None,
      set_three\<lparr>health := [''A'' \<mapsto> True, ''B'' \<mapsto> True],
        result := Some \<lparr>id_r = ''A'',
                      result_r = \<lparr>LeaderId = Some ''A'', CommitIndex = 42, ConfigurationID = ''A'',
                                  Pool = [], Active = [''A'', ''B'', ''C'']\<rparr>,
                      conn_r = None\<rparr>\<rparr>)"
  by (simp add: refresh_def reply_three_def set_three_def getAgencyConfigResults_def
        getAgencyConfigResult_def markActive_def)

subsection \<open>Replacement of the cached state\<close>

text \<open>
  C1, as stated: the cached State is replaced only when the observed commit index is strictly
  greater than the cached one or no valid data exists; an equal or older index leaves it
  unchanged. This fails for an older index: with a valid cache at index 42 and a leader
  that reports index 41, \<open>Reload\<close> pulls the body and overwrites the cached State, because
  the guard of \<open>Reload\<close> compares the two indexes for equality only.
\<close>

theorem Reload_older_index_counterexample:
  "valid (cache_at 42) \<and> commitIndex (cache_at 42) = 42
   \<and> observedCommitIndex (reply_at 41 [''A'']) (cache_at 42) = Some 41
   \<and> (41 :: 64 word) < 42
   \<and> data (cache_at 42) = State ''old''
   \<and> data (fst (snd (Reload (reply_at 41 [''A'']) (body_reply ''new'') (cache_at 42)))) = State ''new''"
  by (simp add: observed_reply_at Reload_reply_at_other) (simp add: cache_at_def)

text \<open>
  C1, amended: a \<open>Reload\<close> replaces the cached State only when the agent set refreshed and
  the commit index observed at the leader differs from the cached one (in either direction),
  or the cache held no valid data. In particular a \<open>Reload\<close> that observes the cached index
  on a valid cache, or whose refresh fails, leaves the cached State as it was.
\<close>

theorem Reload_replaces_only_on_changed_index:
  "(data (fst (snd (Reload g l c))) \<noteq> data c \<longrightarrow>
      (\<exists>ci. observedCommitIndex g c = Some ci \<and> (ci \<noteq> commitIndex c \<or> \<not> valid c)))
   \<and> (observedCommitIndex g c = Some (commitIndex c) \<and> valid c \<longrightarrow>
        data (fst (snd (Reload g l c))) = data c)
   \<and> (observedCommitIndex g c = None \<longrightarrow> data (fst (snd (Reload g l c))) = data c)"
proof -
  obtain r c' t where R: "Reload g l c = (r, c', t)"
    by (cases "Reload g l c") auto
  from Reload_cases [OF R] show ?thesis
    unfolding R by auto
qed

theorem Reload_replaces_only_on_changed_index_witness:
  "data (fst (snd (Reload (reply_at 43 [''A'']) (body_reply ''new'') (cache_at 42)))) = State ''new''
   \<and> data (cache_at 42) = State ''old''
   \<and> observedCommitIndex (reply_at 43 [''A'']) (cache_at 42) = Some 43
   \<and> data (fst (snd (Reload (reply_at 42 [''A'']) (body_reply ''new'') (cache_at 42)))) = State ''old''
   \<and> (\<exists>ci. observedCommitIndex (reply_at 43 [''A'']) (cache_at 42) = Some ci \<and>
          (ci \<noteq> commitIndex (cache_at 42) \<or> \<not> valid (cache_at 42)))"
proof -
  have o: "data (cache_at 42) = State ''old''" "valid (cache_at 42)" "commitIndex (cache_at 42) = 42"
    by (simp_all add: cache_at_def)
  have n: "data (fst (snd (Reload (reply_at 43 [''A'']) (body_reply ''new'') (cache_at 42)))) = State ''new''"
    by (simp add: Reload_reply_at_other)
  have h: "data (fst (snd (Reload (reply_at 43 [''A'']) (body_reply ''new'') (cache_at 42))))
             \<noteq> data (cache_at 42)"
    by (simp add: n o)
  note T = Reload_replaces_only_on_changed_index
  from T [of "reply_at 43 [''A'']" "body_reply ''new''" "cache_at 42"] h
  have 1: "\<exists>ci. observedCommitIndex (reply_at 43 [''A'']) (cache_at 42) = Some ci \<and>
          (ci \<noteq> commitIndex (cache_at 42) \<or> \<not> valid (cache_at 42))"
    by blast
  have e: "observedCommitIndex (reply_at 42 [''A'']) (cache_at 42) = Some (commitIndex (cache_at 42))"
    by (simp add: observed_reply_at o)
  from T [of "reply_at 42 [''A'']" "body_reply ''new''" "cache_at 42"] e o
  have 2: "data (fst (snd (Reload (reply_at 42 [''A'']) (body_reply ''new'') (cache_at 42)))) = State ''old''"
    by simp
  have 3: "observedCommitIndex (reply_at 43 [''A'']) (cache_at 42) = Some 43"
    by (simp add: observed_reply_at)
  from n o(1) 3 2 1 show ?thesis by blast
qed

subsection \<open>Reload on an unchanged index\<close>

text \<open>
  C2: when the commit index observed at the leader equals the cached commit index and the
  cached data is valid, \<open>Reload\<close> issues no \<open>loadState\<close> call (the only calls are the
  configuration polls), leaves data, validity and commit index of the cache unchanged, and
  returns the cached commit index with a nil error.
\<close>

theorem Reload_same_index_noop:
  assumes "observedCommitIndex g c = Some (commitIndex c)" and "valid c"
  shows "Reload g l c =
           ((commitIndex c, None), c\<lparr>set_c := snd (refresh g (set_c c))\<rparr>,
            map (\<lambda>(k, x). GetAgencyConfig x) (clients (set_c c)))
         \<and> Data (fst (snd (Reload g l c))) = Data c
         \<and> (\<forall>x. LoadState x \<notin> set (snd (snd (Reload g l c))))"
  using assms
  by (auto simp: Reload_def observedCommitIndex_def Data_def Let_def
           split: option.splits prod.splits if_splits)

theorem Reload_same_index_noop_witness:
  "observedCommitIndex (reply_at 42 [''A'']) (cache_at 42) = Some (commitIndex (cache_at 42))
   \<and> valid (cache_at 42)
   \<and> fst (Reload (reply_at 42 [''A'']) (body_reply ''new'') (cache_at 42)) = (42, None)
   \<and> Data (fst (snd (Reload (reply_at 42 [''A'']) (body_reply ''new'') (cache_at 42))))
       = (State ''old'', True)
   \<and> snd (snd (Reload (reply_at 42 [''A'']) (body_reply ''new'') (cache_at 42)))
       = [GetAgencyConfig (Connection 1)]"
proof -
  have h1: "observedCommitIndex (reply_at 42 [''A'']) (cache_at 42) = Some (commitIndex (cache_at 42))"
    by (simp add: observed_reply_at) (simp add: cache_at_def)
  have h2: "valid (cache_at 42)"
    by (simp add: cache_at_def)
  have c: "commitIndex (cache_at 42) = 42" "Data (cache_at 42) = (State ''old'', True)"
     "clients (set_c (cache_at 42)) = [(''A'', Connection 1)]"
    by (simp_all add: cache_at_def Data_def)
  note R = Reload_same_index_noop [OF h1 h2, of "body_reply ''new''"]
  from R have r1: "fst (Reload (reply_at 42 [''A'']) (body_reply ''new'') (cache_at 42)) = (42, None)"
    by (simp add: c)
  from R have r2: "Data (fst (snd (Reload (reply_at 42 [''A'']) (body_reply ''new'') (cache_at 42))))
       = (State ''old'', True)"
    unfolding c by (rule conjunct1 [OF conjunct2])
  from R have r3: "snd (snd (Reload (reply_at 42 [''A'']) (body_reply ''new'') (cache_at 42)))
       = [GetAgencyConfig (Connection 1)]"
    by (simp add: c)
  from h1 h2 r1 r2 r3 show ?thesis by blast
qed

subsection \<open>Reload without a leader\<close>

text \<open>
  C4: when no polled agent's response names a leader, \<open>Reload\<close> returns an error (index 0
  and "NoLeader in Agency") and keeps the cached State and its validity flag, so \<open>Data\<close>
  returns what it returned before.
\<close>

theorem Reload_no_leader_keeps_data:
  assumes "\<forall>(k, x) \<in> set (clients (set_c c)). \<forall>cfg. g x = Inr cfg \<longrightarrow> LeaderId cfg = None"
  shows "fst (Reload g l c) = (0, Some (Newf ''NoLeader in Agency''))
         \<and> data (fst (snd (Reload g l c))) = data c
         \<and> valid (fst (snd (Reload g l c))) = valid c
         \<and> Data (fst (snd (Reload g l c))) = Data c"
proof -
  have "findLeader (getAgencyConfigResults g (clients (set_c c))) = None"
    unfolding findLeader_None_iff using assms
    by (auto simp: getAgencyConfigResults_def getAgencyConfigResult_def split: sum.splits)
  then have "refresh g (set_c c) =
      (Some (Newf ''NoLeader in Agency''), (set_c c)\<lparr>health := Map.empty, result := None\<rparr>)"
    by (simp add: refresh_def)
  then show ?thesis
    by (simp add: Reload_def Data_def)
qed

theorem Reload_no_leader_keeps_data_witness:
  "fst (Reload reply_no_leader (body_reply ''new'') (cache_at 42))
       = (0, Some (Newf ''NoLeader in Agency''))
   \<and> Data (cache_at 42) = (State ''old'', True)
   \<and> Data (fst (snd (Reload reply_no_leader (body_reply ''new'') (cache_at 42))))
       = (State ''old'', True)"
proof -
  have h: "\<forall>(k, x) \<in> set (clients (set_c (cache_at 42))).
             \<forall>cfg. reply_no_leader x = Inr cfg \<longrightarrow> LeaderId cfg = None"
    by (auto simp: cache_at_def reply_no_leader_def)
  have c: "Data (cache_at 42) = (State ''old'', True)"
    by (simp add: cache_at_def Data_def)
  from Reload_no_leader_keeps_data [OF h, of "body_reply ''new''"] c show ?thesis
    by simp
qed

subsection \<open>The health map\<close>

text \<open>
  C7, as stated: after a successful refresh an agent is healthy if and only if its
  configuration request returned without error and it is listed in the leader's active-peer
  list. The "only if" fails for the leader itself: \<open>refresh\<close> marks the leader healthy
  before it looks at the active list. With one agent \<open>A\<close> that reports itself leader and an
  empty active list, the refresh succeeds and \<open>A\<close> is healthy although no active list names it.
\<close>

theorem refresh_leader_not_active_counterexample:
  "fst (refresh (reply_at 42 []) (set_c (cache_at 42))) = None
   \<and> result (snd (refresh (reply_at 42 []) (set_c (cache_at 42)))) =
       Some \<lparr>id_r = ''A'',
             result_r = \<lparr>LeaderId = Some ''A'', CommitIndex = 42, ConfigurationID = ''A'',
                         Pool = [], Active = []\<rparr>,
             conn_r = None\<rparr>
   \<and> Health_a (snd (refresh (reply_at 42 []) (set_c (cache_at 42)))) ''A'' = Some True"
  by (simp add: refresh_reply_at Health_a_def)

text \<open>
  C7, amended: after a successful refresh, the health map marks an agent healthy if and only
  if its configuration request returned without error and the agent is the leader itself or
  is listed in the leader's active-peer list; the map holds no entry with value false, so no
  other agent appears as healthy.
\<close>

theorem refresh_health_iff:
  assumes "refresh g a = (None, a')"
  shows "\<exists>z. result a' = Some z \<and>
           (\<forall>x. Health_a a' x = Some True \<longleftrightarrow>
                  (\<exists>c cfg. map_of (clients a) x = Some c \<and> g c = Inr cfg) \<and>
                  (x = id_r z \<or> x \<in> set (Active (result_r z)))) \<and>
           (\<forall>x. Health_a a' x \<noteq> Some False)"
proof -
  let ?r = "getAgencyConfigResults g (clients a)"
  from assms obtain leader res cfg where
    L: "findLeader ?r = Some leader" and R: "map_of ?r leader = Some res"
    and E: "err res = None" and C: "config res = Some cfg"
    and A: "a' = a\<lparr>health := fold (markActive ?r) (Active cfg) [leader \<mapsto> True],
                     result := Some \<lparr>id_r = leader, result_r = cfg, conn_r = None\<rparr>\<rparr>"
    by (auto simp: refresh_def Let_def split: option.splits)
  have lead: "\<exists>c cfg. map_of (clients a) leader = Some c \<and> g c = Inr cfg"
    using R E answered_iff [of g "clients a" leader] by blast
  have "Health_a a' x = Some True \<longleftrightarrow>
          (\<exists>c cfg. map_of (clients a) x = Some c \<and> g c = Inr cfg) \<and>
          (x = leader \<or> x \<in> set (Active cfg))" for x
    using lead by (auto simp: A Health_a_def fold_markActive answered_iff)
  moreover have "Health_a a' x \<noteq> Some False" for x
    by (simp add: A Health_a_def fold_markActive_False)
  ultimately show ?thesis by (simp add: A)
qed

theorem refresh_health_iff_witness:
  "refresh reply_three set_three = (None, snd (refresh reply_three set_three))
   \<and> Health_a (snd (refresh reply_three set_three)) ''A'' = Some True
   \<and> Health_a (snd (refresh reply_three set_three)) ''B'' = Some True
   \<and> Health_a (snd (refresh reply_three set_three)) ''C'' \<noteq> Some True
   \<and> (\<exists>z. result (snd (refresh reply_three set_three)) = Some z \<and>
           (\<forall>x. Health_a (snd (refresh reply_three set_three)) x = Some True \<longleftrightarrow>
                  (\<exists>c cfg. map_of (clients set_three) x = Some c \<and> reply_three c = Inr cfg) \<and>
                  (x = id_r z \<or> x \<in> set (Active (result_r z)))) \<and>
           (\<forall>x. Health_a (snd (refresh reply_three set_three)) x \<noteq> Some False))"
proof -
  have h: "refresh reply_three set_three = (None, snd (refresh reply_three set_three))"
    by (simp add: refresh_set_three)
  have v: "Health_a (snd (refresh reply_three set_three)) ''A'' = Some True"
      "Health_a (snd (refresh reply_three set_three)) ''B'' = Some True"
      "Health_a (snd (refresh reply_three set_three)) ''C'' \<noteq> Some True"
    by (simp_all add: refresh_set_three Health_a_def)
  from h v refresh_health_iff [OF h] show ?thesis by blast
qed

subsection \<open>The leader's connection\<close>

text \<open>
  C10: after a successful refresh the stored leader result has a nil connection, so
  \<open>Leader\<close> returns the leader's id and commit index, a nil connection and \<open>ok = true\<close>;
  and the calls of the \<open>Reload\<close> that ran this refresh are the configuration polls,
  followed, unless the index is unchanged on a valid cache, by one \<open>loadState\<close> call whose
  connection argument is that nil connection.
\<close>

theorem refresh_leader_conn_nil:
  assumes "refresh g (set_c c) = (None, a')"
  shows "\<exists>z. result a' = Some z \<and> conn_r z = None \<and>
             Leader a' = (id_r z, CommitIndex (result_r z), None, True) \<and>
             snd (snd (Reload g l c)) =
               map (\<lambda>(k, x). GetAgencyConfig x) (clients (set_c c)) @
                 (if CommitIndex (result_r z) = commitIndex c \<and> valid c then []
                  else [LoadState None])"
proof -
  from refresh_ok_result [OF assms] obtain z where Z: "result a' = Some z" "conn_r z = None"
    by blast
  then have 1: "Leader a' = (id_r z, CommitIndex (result_r z), None, True)"
    by (simp add: Leader_def)
  from Reload_calls [OF assms 1, of l] Z 1 show ?thesis
    by auto
qed

theorem refresh_leader_conn_nil_witness:
  "refresh (reply_at 43 [''A'']) (set_c (cache_at 42))
     = (None, snd (refresh (reply_at 43 [''A'']) (set_c (cache_at 42))))
   \<and> Leader (snd (refresh (reply_at 43 [''A'']) (set_c (cache_at 42)))) = (''A'', 43, None, True)
   \<and> snd (snd (Reload (reply_at 43 [''A'']) (body_reply ''new'') (cache_at 42)))
       = [GetAgencyConfig (Connection 1), LoadState None]
   \<and> (\<exists>z. result (snd (refresh (reply_at 43 [''A'']) (set_c (cache_at 42)))) = Some z \<and>
            conn_r z = None \<and>
            Leader (snd (refresh (reply_at 43 [''A'']) (set_c (cache_at 42))))
              = (id_r z, CommitIndex (result_r z), None, True) \<and>
            snd (snd (Reload (reply_at 43 [''A'']) (body_reply ''new'') (cache_at 42))) =
               map (\<lambda>(k, x). GetAgencyConfig x) (clients (set_c (cache_at 42))) @
                 (if CommitIndex (result_r z) = commitIndex (cache_at 42) \<and> valid (cache_at 42)
                  then [] else [LoadState None]))"
proof -
  have h: "refresh (reply_at 43 [''A'']) (set_c (cache_at 42))
     = (None, snd (refresh (reply_at 43 [''A'']) (set_c (cache_at 42))))"
    by (simp add: refresh_reply_at)
  have v: "Leader (snd (refresh (reply_at 43 [''A'']) (set_c (cache_at 42)))) = (''A'', 43, None, True)"
    by (simp add: refresh_reply_at Leader_def)
  have t: "snd (snd (Reload (reply_at 43 [''A'']) (body_reply ''new'') (cache_at 42)))
       = [GetAgencyConfig (Connection 1), LoadState None]"
    by (simp add: Reload_reply_at_other)
  from h v t refresh_leader_conn_nil [OF h, of "body_reply ''new''"] show ?thesis by blast
qed

section \<open>Properties of the action timeouts\<close>

text \<open>
  C8: \<open>GetActionTimeout\<close> returns the spec's per-type override for \<open>t\<close> when one is set,
  otherwise the timeout registered for \<open>t\<close>, otherwise the spec's \<open>default\<close> entry when set,
  otherwise the global default; so a per-type override of the spec always wins over the
  registered timeout of that type. The second lookup of the code, under the key \<open>default\<close>,
  goes through the registry as well, so the statement is about a registry in which no action
  type is named \<open>default\<close>.
\<close>

theorem GetActionTimeout_precedence:
  assumes "actionTimeouts ''default'' = None"
  shows "GetActionTimeout actionTimeouts defaultTimeout spec t
           = timeoutBySpecWords actionTimeouts defaultTimeout spec t
         \<and> (\<forall>d. specOverride spec t = Some d \<longrightarrow>
                GetActionTimeout actionTimeouts defaultTimeout spec t = Duration d)"
  using assms
  by (auto simp: GetActionTimeout_def getActionTimeout_def timeoutBySpecWords_def specOverride_def
           split: option.splits)

theorem GetActionTimeout_precedence_witness:
  "GetActionTimeout registry_demo 1000 spec_demo ''AddMember'' = 5
   \<and> GetActionTimeout registry_demo 1000 spec_demo ''DisableClusterScaling'' = 0
   \<and> GetActionTimeout registry_demo 1000 spec_demo ''CleanOutMember'' = 7
   \<and> GetActionTimeout registry_demo 1000 \<lparr>Timeouts = None\<rparr> ''CleanOutMember'' = 1000"
proof -
  have h: "registry_demo ''default'' = None"
    by (simp add: registry_demo_def)
  note P = GetActionTimeout_precedence [of registry_demo, OF h, of 1000]
  have "GetActionTimeout registry_demo 1000 spec_demo ''AddMember'' = 5"
    unfolding P [of spec_demo "''AddMember''", THEN conjunct1]
    by (simp add: timeoutBySpecWords_def specOverride_def spec_demo_def registry_demo_def)
  moreover have "GetActionTimeout registry_demo 1000 spec_demo ''DisableClusterScaling'' = 0"
    unfolding P [of spec_demo "''DisableClusterScaling''", THEN conjunct1]
    by (simp add: timeoutBySpecWords_def specOverride_def spec_demo_def registry_demo_def)
  moreover have "GetActionTimeout registry_demo 1000 spec_demo ''CleanOutMember'' = 7"
    unfolding P [of spec_demo "''CleanOutMember''", THEN conjunct1]
    by (simp add: timeoutBySpecWords_def specOverride_def spec_demo_def registry_demo_def)
  moreover have "GetActionTimeout registry_demo 1000 \<lparr>Timeouts = None\<rparr> ''CleanOutMember'' = 1000"
    unfolding P [of "\<lparr>Timeouts = None\<rparr>" "''CleanOutMember''", THEN conjunct1]
    by (simp add: timeoutBySpecWords_def specOverride_def registry_demo_def)
  ultimately show ?thesis by blast
qed

section \<open>Properties of the authentication wrapper\<close>

text \<open>
  C9: when the wrapped connection answers the first request, a response whose status is not
  401 is returned unchanged after that single call. On a 401 the wrapper calls its \<open>Auth\<close>
  callback once and sets the authentication on the base connection once; if either fails,
  the wrapped error is returned and the request is not issued again; otherwise the same
  request is issued once more on the new connection and its outcome is returned as it is,
  a second 401 included: there is no further retry.
\<close>

theorem Do_reauthenticates_once:
  assumes "connDo d (conn_a a) req w = (Inr resp, w1)"
  shows "(StatusCode resp \<noteq> 401 \<longrightarrow>
            Do d a req w = (Inr resp, a, w1, [CallDo (conn_a a) req]))
       \<and> (StatusCode resp = 401 \<longrightarrow>
            (\<forall>e w2. auth a w1 = (Inl e, w2) \<longrightarrow>
               Do d a req w =
                 (Inl (Wrap e ''Unable to refresh auth''), a, w2,
                  [CallDo (conn_a a) req, CallAuth]))
          \<and> (\<forall>au w2 e w3. auth a w1 = (Inr au, w2) \<and>
                 connSetAuthentication d (base a) au w2 = (Inl e, w3) \<longrightarrow>
               Do d a req w =
                 (Inl (Wrap e ''Unable to set auth''), a, w3,
                  [CallDo (conn_a a) req, CallAuth, CallSetAuthentication (base a) au]))
          \<and> (\<forall>au w2 c w3 r w4. auth a w1 = (Inr au, w2) \<and>
                 connSetAuthentication d (base a) au w2 = (Inr c, w3) \<and>
                 connDo d c req w3 = (r, w4) \<longrightarrow>
               Do d a req w =
                 (r, a\<lparr>conn_a := c\<rparr>, w4,
                  [CallDo (conn_a a) req, CallAuth, CallSetAuthentication (base a) au,
                   CallDo c req])))"
  using assms
  by (simp add: Do_def Reauthenticate_def StatusUnauthorized_def)

theorem Do_reauthenticates_once_witness:
  "Do driver_denied (WrapAuthentication (Connection 1) auth_ok) request_demo 0 =
     (Inr \<lparr>StatusCode = 401, Body = ''unauthorized''\<rparr>,
      \<lparr>base = Connection 1, conn_a = Connection 2, auth = auth_ok\<rparr>, 4,
      [CallDo (Connection 1) request_demo, CallAuth,
       CallSetAuthentication (Connection 1) (Authentication ''bearer''),
       CallDo (Connection 2) request_demo])
   \<and> Do driver_ok (WrapAuthentication (Connection 2) auth_ok) request_demo 0 =
     (Inr \<lparr>StatusCode = 200, Body = ''ok''\<rparr>, WrapAuthentication (Connection 2) auth_ok, 1,
      [CallDo (Connection 2) request_demo])
   \<and> Do driver_ok (WrapAuthentication (Connection 1) auth_broken) request_demo 0 =
     (Inl (Wrap (Newf ''no secret'') ''Unable to refresh auth''),
      WrapAuthentication (Connection 1) auth_broken, 2,
      [CallDo (Connection 1) request_demo, CallAuth])"
proof -
  have h1: "connDo driver_denied (conn_a (WrapAuthentication (Connection 1) auth_ok)) request_demo 0
              = (Inr \<lparr>StatusCode = 401, Body = ''unauthorized''\<rparr>, 1)"
    by (simp add: driver_denied_def WrapAuthentication_def)
  have h2: "connDo driver_ok (conn_a (WrapAuthentication (Connection 2) auth_ok)) request_demo 0
              = (Inr \<lparr>StatusCode = 200, Body = ''ok''\<rparr>, 1)"
    by (simp add: driver_ok_def WrapAuthentication_def)
  have h3: "connDo driver_ok (conn_a (WrapAuthentication (Connection 1) auth_broken)) request_demo 0
              = (Inr \<lparr>StatusCode = 401, Body = ''unauthorized''\<rparr>, 1)"
    by (simp add: driver_ok_def WrapAuthentication_def)
  from Do_reauthenticates_once [OF h1]
  have 1: "Do driver_denied (WrapAuthentication (Connection 1) auth_ok) request_demo 0 =
     (Inr \<lparr>StatusCode = 401, Body = ''unauthorized''\<rparr>,
      \<lparr>base = Connection 1, conn_a = Connection 2, auth = auth_ok\<rparr>, 4,
      [CallDo (Connection 1) request_demo, CallAuth,
       CallSetAuthentication (Connection 1) (Authentication ''bearer''),
       CallDo (Connection 2) request_demo])"
    by (simp add: driver_denied_def WrapAuthentication_def auth_ok_def)
  from Do_reauthenticates_once [OF h2]
  have 2: "Do driver_ok (WrapAuthentication (Connection 2) auth_ok) request_demo 0 =
     (Inr \<lparr>StatusCode = 200, Body = ''ok''\<rparr>, WrapAuthentication (Connection 2) auth_ok, 1,
      [CallDo (Connection 2) request_demo])"
    by (simp add: WrapAuthentication_def)
  from Do_reauthenticates_once [OF h3]
  have 3: "Do driver_ok (WrapAuthentication (Connection 1) auth_broken) request_demo 0 =
     (Inl (Wrap (Newf ''no secret'') ''Unable to refresh auth''),
      WrapAuthentication (Connection 1) auth_broken, 2,
      [CallDo (Connection 1) request_demo, CallAuth])"
    by (simp add: WrapAuthentication_def auth_broken_def)
  from 1 2 3 show ?thesis by blast
qed

section \<open>Properties of the action RuntimeContainerImageUpdate\<close>

lemma startLoop_applied:
  assumes "list_all (\<lambda>c. Name c = name \<longrightarrow> Image c = img) (Containers (Spec pod))"
    and "\<forall>i \<in> set ids. i < length (Containers (Spec pod))"
  shows "startLoop update pod spec status name img ids = ((True, None), [])"
  using assms(2)
proof (induction ids)
  case Nil
  show ?case by simp
next
  case (Cons i ids)
  then have "i < length (Containers (Spec pod))" by simp
  with assms(1) have "Name (Containers (Spec pod) ! i) = name \<longrightarrow> Image (Containers (Spec pod) ! i) = img"
    by (simp add: list_all_length)
  with Cons show ?case by auto
qed

lemmas demo_defs =
  action_demo_def decls_demo_def inspector_demo_def pod_demo_def member_ok_def template_demo_def
  no_members_def members_ok_def getContainerDetails_def GetParam_def templateContainers_def

lemma applied_demo: "imageAlreadyApplied decls_demo (action_demo ''arangodb:3.9.1'' ms)"
  by (simp add: imageAlreadyApplied_def demo_defs)

text \<open>
  The model issues the update when the image differs: on the concrete member above, asking
  for another image makes \<open>Start\<close> send the pod with the new image and report not ready.
\<close>

lemma Start_updates_other_image:
  "Start decls_demo (action_demo ''arangodb:3.9.2'' members_ok) =
     ((False, None),
      [PodUpdate \<lparr>ObjectName = ''pod-1'',
                  Spec = \<lparr>Containers = [\<lparr>Name = ''server'', Image = ''arangodb:3.9.2''\<rparr>]\<rparr>\<rparr>])"
  by (simp add: Start_def demo_defs)

text \<open>
  C5, as stated: whenever the pod's container named in the action parameters already runs
  the requested image, \<open>Start\<close> returns ready=true and no error without a pod update. The
  result fails when the member is in a ready phase and its ArangoMember resource is missing
  from the cache of the current cluster: \<open>Start\<close> looks the resource up before it looks at
  the pod and returns ready=false with the error "ArangoMember not found".
\<close>

theorem Start_member_missing_counterexample:
  "imageAlreadyApplied decls_demo (action_demo ''arangodb:3.9.1'' no_members)
   \<and> Start decls_demo (action_demo ''arangodb:3.9.1'' no_members)
       = ((False, Some (Newf ''ArangoMember not found'')), [])"
  by (simp add: applied_demo) (simp add: Start_def demo_defs)

text \<open>
  C5, amended: whenever the pod's container named in the action parameters already runs the
  requested image, \<open>Start\<close> issues no pod update, so a second \<open>Start\<close> has no duplicate side
  effect; it returns ready=true and no error, except when the member's phase is ready and
  its ArangoMember resource is not in the cache of the current cluster, where it returns
  ready=false and the error "ArangoMember not found".
\<close>

theorem Start_already_applied:
  assumes "imageAlreadyApplied x a"
  shows "\<exists>m. GetMemberStatusByID (actionCtx a) (MemberID (action a)) = Some m \<and>
             snd (Start x a) = [] \<and>
             fst (Start x a) =
               (if IsReady x (Phase m) \<and>
                   ArangoMemberGetSimple (CurrentClusterCache (actionCtx a))
                     (ArangoMemberName x m (GetName (actionCtx a)) (Group (action a))) = None
                then (False, Some (Newf ''ArangoMember not found''))
                else (True, None))"
proof -
  from assms obtain m cache name img pod where
    M: "GetMemberStatusByID (actionCtx a) (MemberID (action a)) = Some m"
    and C: "ClusterCache (actionCtx a) (ClusterID m) = Some cache"
    and D: "getContainerDetails x a = (name, img, True)"
    and P: "PodGetSimple cache (PodName m) = Some pod"
    and A: "list_all (\<lambda>c. Name c = name \<longrightarrow> Image c = img) (Containers (Spec pod))"
    by (auto simp: imageAlreadyApplied_def split: option.splits prod.splits)
  have L: "startLoop u pod spec status name img [0 ..< n] = ((True, None), [])"
    if "n \<le> length (Containers (Spec pod))" for u spec status n
    using that by (intro startLoop_applied [OF A]) simp
  have "Start x a =
          (if IsReady x (Phase m) \<and>
              ArangoMemberGetSimple (CurrentClusterCache (actionCtx a))
                (ArangoMemberName x m (GetName (actionCtx a)) (Group (action a))) = None
           then ((False, Some (Newf ''ArangoMember not found'')), [])
           else ((True, None), []))"
    by (simp add: Start_def M C D P L split: option.splits)
  with M show ?thesis by simp
qed

theorem Start_already_applied_witness:
  "imageAlreadyApplied decls_demo (action_demo ''arangodb:3.9.1'' members_ok)
   \<and> Start decls_demo (action_demo ''arangodb:3.9.1'' members_ok) = ((True, None), [])"
proof -
  have h: "imageAlreadyApplied decls_demo (action_demo ''arangodb:3.9.1'' members_ok)"
    by (rule applied_demo)
  from Start_already_applied [OF h]
  have "snd (Start decls_demo (action_demo ''arangodb:3.9.1'' members_ok)) = []
        \<and> fst (Start decls_demo (action_demo ''arangodb:3.9.1'' members_ok)) = (True, None)"
    by (simp add: demo_defs)
  with h show ?thesis by (simp add: prod_eq_iff)
qed

section \<open>Properties of the resource cache\<close>

lemma firstError_None_iff: "firstError es = None \<longleftrightarrow> (\<forall>e \<in> set es. e = None)"
  by (induction es rule: firstError.induct) auto

lemma loaded_demo:
  "loaded env_demo [pods_loader 7 v] state_demo no_counts =
     ((copyCore state_demo)
        \<lparr>versionInfo := ''1.21.1'',
         deploymentResult := Some \<lparr>depl = Some (ArangoDeployment ''depl''), err_d = None\<rparr>,
         pods := Some 7\<rparr>,
      no_counts(5 := 1))"
  by (simp add: loaded_def loadOne_def env_demo_def pods_loader_def TrimPrefix_def copyCore_def
        state_demo_def always_components_def Copy_components_def no_counts_def)

text \<open>
  C3: let \<open>n\<close> be the working copy after the load phase. If \<open>Verify\<close> of some loader fails on
  \<open>n\<close>, or \<open>validate\<close> fails on \<open>n\<close>, the refresh returns an error and the visible inspector
  state is the one before the call, field by field: per-kind data, deployment result,
  throttles, last-refresh time and the initialised flag. If every \<open>Verify\<close> and \<open>validate\<close>
  pass, and only then, the refresh returns nil and the visible state is the old one with
  every loader's \<open>Copy\<close> applied, the deployment result and throttles of \<open>n\<close>, the new
  last-refresh time and \<open>initialised = true\<close>. The store of shared counters is outside the
  inspector state: \<open>alwaysThrottle\<close> objects are shared with the working copy, and their call
  counter advances in a failed refresh as well, as the concrete refresh below shows.
\<close>

theorem refreshInThreads_swaps_only_after_checks:
  assumes "loaded env loaders i cs = (n, cs')"
  shows "((\<exists>l \<in> set loaders. Verify l n \<noteq> None) \<or> validate validateKind n \<noteq> None \<longrightarrow>
            (\<exists>e. refreshInThreads validateKind env loaders i cs = (Some e, i, cs')))
       \<and> ((\<forall>l \<in> set loaders. Verify l n = None) \<and> validate validateKind n = None \<longrightarrow>
            refreshInThreads validateKind env loaders i cs =
              (None,
               (fold (\<lambda>l to. Copy l n to True) loaders i)
                 \<lparr>deploymentResult := deploymentResult n, throttles := throttles n,
                  last_i := nowLast env, initialised := True\<rparr>,
               cs'))"
proof (cases "firstError (map (\<lambda>l. Verify l n) loaders)")
  case None
  then have V: "\<forall>l \<in> set loaders. Verify l n = None"
    by (simp add: firstError_None_iff)
  show ?thesis
  proof (cases "validate validateKind n")
    case N: None
    with None V assms show ?thesis by (simp add: refreshInThreads_def)
  next
    case (Some e)
    with None V assms show ?thesis by (simp add: refreshInThreads_def)
  qed
next
  case (Some e)
  then have "\<not> (\<forall>l \<in> set loaders. Verify l n = None)"
    using firstError_None_iff [of "map (\<lambda>l. Verify l n) loaders"] by auto
  with Some assms show ?thesis by (simp add: refreshInThreads_def)
qed

theorem refreshInThreads_swaps_only_after_checks_witness:
  "(\<exists>e. refreshInThreads validate_any env_demo [pods_loader 7 (Some (Newf ''forbidden''))]
           state_demo no_counts = (Some e, state_demo, no_counts(5 := 1)))
   \<and> (\<exists>e. refreshInThreads validate_present env_demo [pods_loader 7 None]
           state_demo no_counts = (Some e, state_demo, no_counts(5 := 1)))
   \<and> refreshInThreads validate_any env_demo [pods_loader 7 None] state_demo no_counts =
       (None,
        state_demo
          \<lparr>pods := Some 7,
           deploymentResult := Some \<lparr>depl = Some (ArangoDeployment ''depl''), err_d = None\<rparr>,
           throttles := always_components, last_i := 1002, initialised := True\<rparr>,
        no_counts(5 := 1))"
proof -
  note T = refreshInThreads_swaps_only_after_checks [OF loaded_demo]
  have 1: "\<exists>e. refreshInThreads validate_any env_demo [pods_loader 7 (Some (Newf ''forbidden''))]
           state_demo no_counts = (Some e, state_demo, no_counts(5 := 1))"
    by (rule T [THEN conjunct1, rule_format]) (simp add: pods_loader_def)
  have 2: "\<exists>e. refreshInThreads validate_present env_demo [pods_loader 7 None]
           state_demo no_counts = (Some e, state_demo, no_counts(5 := 1))"
    by (rule T [THEN conjunct1, rule_format])
      (simp add: validate_def validate_present_def copyCore_def state_demo_def)
  have 3: "refreshInThreads validate_any env_demo [pods_loader 7 None] state_demo no_counts =
       (None,
        state_demo
          \<lparr>pods := Some 7,
           deploymentResult := Some \<lparr>depl = Some (ArangoDeployment ''depl''), err_d = None\<rparr>,
           throttles := always_components, last_i := 1002, initialised := True\<rparr>,
        no_counts(5 := 1))"
    using T [of None validate_any, THEN conjunct2, rule_format]
    by (simp add: validate_def validate_any_def pods_loader_def copyCore_def state_demo_def
          Copy_components_def always_components_def env_demo_def)
  from 1 2 3 show ?thesis by blast
qed

section \<open>Properties of the inspection loop\<close>

subsection \<open>What the phases of an inspection write\<close>

text \<open>
  No phase of \<open>inspectDeploymentWithError\<close> writes the spec, and the condition \<open>UpToDate\<close> is
  made true only when the checksum of the current spec is the accepted spec version of the
  status: the first gate returns unless that holds or \<open>SpecAccepted\<close> is false, and
  \<open>isUpToDateStatus\<close> is false when \<open>SpecAccepted\<close> is.
\<close>

lemma immutableFields_Reset:
  "immutableFields (ResetImmutableFields a s) = immutableFields a"
  by (simp add: immutableFields_def ResetImmutableFields_def)

lemma retry_effects:
  "snd (updated_then_retry env (updateConditionWithHash env t v r m h) msg) =
     [StatusWrite (UpdateWithHash t v r m h) (WithStatusUpdate env (UpdateWithHash t v r m h))]"
  by (simp add: updated_then_retry_def updateConditionWithHash_def Let_def split: option.splits)

lemma retry_effectsD:
  "updated_then_retry env (updateConditionWithHash env t v r m h) msg = (x, effs) \<Longrightarrow>
     effs = [StatusWrite (UpdateWithHash t v r m h) (WithStatusUpdate env (UpdateWithHash t v r m h))]"
  using retry_effects [of env t v r m h msg] by simp

lemma specGate_Inl:
  assumes "specGate env s st = Inl (r, effs)"
  shows "\<forall>e \<in> set effs. \<not> isUpToDateTrue e \<and> (\<forall>x. e \<noteq> UpdateCRSpec x)"
proof (cases "Checksum env s")
  case (Inl e)
  with assms show ?thesis by (simp add: specGate_def)
next
  case (Inr cs)
  with assms show ?thesis
    by (auto simp: specGate_def Let_def split: if_splits dest!: retry_effectsD)
qed

lemma specGate_Inr:
  assumes "specGate env s st = Inr cs"
  shows "Checksum env s = Inr cs"
    and "IsTrue_c (Conditions st) SpecAccepted \<Longrightarrow> AcceptedSpecVersion st = Some cs"
proof -
  from assms show C: "Checksum env s = Inr cs"
    by (cases "Checksum env s") (auto simp: specGate_def Let_def split: if_splits)
  assume "IsTrue_c (Conditions st) SpecAccepted"
  with assms C show "AcceptedSpecVersion st = Some cs"
    by (auto simp: specGate_def Let_def IsTrue_c_def split: if_splits)
qed

lemma planPhase_effects:
  assumes "planPhase env obj = (x, effs)"
  shows "\<forall>e \<in> set effs. \<not> isUpToDateTrue e \<and> (\<forall>x. e \<noteq> UpdateCRSpec x)"
  using assms
  by (auto simp: planPhase_def split: if_splits option.splits)

lemma reachablePhase_effects:
  assumes "reachablePhase env st = (x, effs)"
  shows "\<forall>e \<in> set effs. \<not> isUpToDateTrue e \<and> (\<forall>x. e \<noteq> UpdateCRSpec x)"
  using assms
  by (auto simp: reachablePhase_def updateConditionWithHash_def Let_def split: if_splits option.splits)

lemma isUpToDateStatus_True:
  "fst (isUpToDateStatus st) \<Longrightarrow> IsTrue_c (Conditions st) SpecAccepted"
  by (auto simp: isUpToDateStatus_def split: if_splits)

lemma upToDatePhase_effects:
  assumes "upToDatePhase env obj st = (x, effs)"
  shows "\<forall>e \<in> set effs. (isUpToDateTrue e \<longrightarrow> IsTrue_c (Conditions st) SpecAccepted) \<and>
                         (\<forall>x. e \<noteq> UpdateCRSpec x)"
proof (cases "isUpToDateStatus st")
  case (Pair isUpToDate reason)
  then have "isUpToDate \<Longrightarrow> IsTrue_c (Conditions st) SpecAccepted"
    using isUpToDateStatus_True [of st] by simp
  with assms Pair show ?thesis
    by (auto simp: upToDatePhase_def split: if_splits option.splits prod.splits
             dest!: retry_effectsD)
qed

lemma inspectDeploymentWithError_effects:
  assumes "inspectDeploymentWithError env d obj li = (r, effs)"
  shows "\<forall>e \<in> set effs.
           (isUpToDateTrue e \<longrightarrow>
              (\<exists>cs. Checksum env (Spec_d obj) = Inr cs \<and>
                    AcceptedSpecVersion (GetStatus env) = Some cs)) \<and>
           (\<forall>x. e \<noteq> UpdateCRSpec x)"
proof (cases "specGate env (Spec_d obj) (GetStatus env)")
  case (Inl a)
  then obtain r' effs' where A: "a = (r', effs')" by (cases a)
  with Inl assms have "effs = effs'"
    by (simp add: inspectDeploymentWithError_def Let_def)
  with specGate_Inl [OF Inl [unfolded A]] show ?thesis by blast
next
  case (Inr cs)
  note G = specGate_Inr [OF Inr]
  obtain x1 e1 where P: "planPhase env obj = (x1, e1)" by (cases "planPhase env obj")
  obtain x2 e2 where R: "reachablePhase env (GetStatus env) = (x2, e2)"
    by (cases "reachablePhase env (GetStatus env)")
  obtain x3 e3 where U: "upToDatePhase env obj (GetStatus env) = (x3, e3)"
    by (cases "upToDatePhase env obj (GetStatus env)")
  have sub: "set effs \<subseteq> set e1 \<union> set e2 \<union> set e3"
    using assms Inr P R U
    by (auto simp: inspectDeploymentWithError_def Let_def split: sum.splits)
  show ?thesis
  proof
    fix e assume "e \<in> set effs"
    with sub have "e \<in> set e1 \<or> e \<in> set e2 \<or> e \<in> set e3" by blast
    with planPhase_effects [OF P] reachablePhase_effects [OF R] upToDatePhase_effects [OF U] G
    show "(isUpToDateTrue e \<longrightarrow>
              (\<exists>cs. Checksum env (Spec_d obj) = Inr cs \<and>
                    AcceptedSpecVersion (GetStatus env) = Some cs)) \<and>
           (\<forall>x. e \<noteq> UpdateCRSpec x)"
      by blast
  qed
qed

subsection \<open>What an inspection writes after the spec-acceptance check\<close>

lemma finish_effects: "fst (snd (finish env d h n effs)) = effs"
  by (simp add: finish_def)

lemma proceed_effects:
  assumes "proceed env d obj li effs0 = (r, effs, d')"
  shows "set effs0 \<subseteq> set effs \<and>
         (\<forall>e \<in> set effs. e \<in> set effs0 \<or>
              ((isUpToDateTrue e \<longrightarrow>
                 (\<exists>cs. Checksum env (Spec_d obj) = Inr cs \<and>
                       AcceptedSpecVersion (GetStatus env) = Some cs)) \<and>
               (\<forall>x. e \<noteq> UpdateCRSpec x)))"
proof (cases "currentObjectStatus d")
  case None
  with assms show ?thesis by (simp add: proceed_def)
next
  case (Some c)
  let ?d1 = "d\<lparr>currentObject := Some obj\<rparr>"
  obtain rw ew where W: "inspectDeploymentWithError env ?d1 obj li = (rw, ew)"
    by (cases "inspectDeploymentWithError env ?d1 obj li")
  note E = inspectDeploymentWithError_effects [OF W]
  have 1: "set effs0 \<subseteq> set effs"
    using assms Some W
    by (auto simp: proceed_def Let_def finish_def split: if_splits option.splits prod.splits)
  have 2: "set effs \<subseteq> set effs0 \<union> {UpdateCRStatus c} \<union> set ew \<union> {x. \<exists>m e. x = CreateEvent m e}"
    using assms Some W
    by (auto simp: proceed_def Let_def finish_def split: if_splits option.splits prod.splits)
  have 3: "e \<in> set effs0 \<or>
              ((isUpToDateTrue e \<longrightarrow>
                 (\<exists>cs. Checksum env (Spec_d obj) = Inr cs \<and>
                       AcceptedSpecVersion (GetStatus env) = Some cs)) \<and>
               (\<forall>x. e \<noteq> UpdateCRSpec x))" if "e \<in> set effs" for e
  proof -
    from that 2 have "e \<in> set effs0 \<or> e = UpdateCRStatus c \<or> e \<in> set ew \<or> (\<exists>m x. e = CreateEvent m x)"
      by blast
    with E show ?thesis by auto
  qed
  from 1 3 show ?thesis by blast
qed

lemma inspectObject_reset:
  assumes "Annotations obj (MaintenanceAnnotation env) \<noteq> Some ''true''"
    and "AcceptedSpec (Status_d obj) = Some accepted"
    and "immutableFields (Spec_d obj) \<noteq> immutableFields accepted"
    and "u = (if fst (ensureFinalizers env) then obj\<lparr>Finalizers := snd (ensureFinalizers env)\<rparr> else obj)"
    and "e0 = (if fst (ensureFinalizers env) then [ApplyPatchFinalizers (snd (ensureFinalizers env))] else [])"
    and "R = ResetImmutableFields accepted (Spec_d obj)"
  shows "inspectObject env d obj lastInterval =
      (if snd (resetReports env)
       then (Some (minInspectionInterval env), e0 @ [UpdateCRSpec R] @ notifyCluster d, d)
       else if \<not> fst (resetReports env)
       then (Some (minInspectionInterval env), e0 @ [UpdateCRSpec R], d)
       else proceed env d u lastInterval (e0 @ [UpdateCRSpec R]))"
proof -
  have U: "Spec_d u = Spec_d obj" "Status_d u = Status_d obj"
    by (simp_all add: assms(4))
  have A: "acceptNewSpec env u = ((fst (resetReports env), snd (resetReports env), None), [UpdateCRSpec R])"
    using assms(2,3) by (simp add: acceptNewSpec_def U assms(6))
  have "inspectObject env d obj lastInterval =
     (case acceptNewSpec env u of
              ((canProceed, changed, er), ea) \<Rightarrow>
                if er \<noteq> None then
                  (if \<not> canProceed then (Some (minInspectionInterval env), e0 @ ea, d)
                   else proceed env d u lastInterval (e0 @ ea))
                else if changed then
                  (Some (minInspectionInterval env), e0 @ ea @ notifyCluster d, d)
                else if \<not> canProceed then (Some (minInspectionInterval env), e0 @ ea, d)
                else proceed env d u lastInterval (e0 @ ea))"
    unfolding inspectObject_def Let_def assms(4,5) using assms(1) by simp
  then show ?thesis
    unfolding A by simp
qed

lemma notifyCluster_cases:
  "notifyCluster d = [] \<or> (\<exists>a. notifyCluster d = [SendUpdateToCluster a])"
proof (cases "currentObjectStatus d")
  case None
  then show ?thesis by (simp add: notifyCluster_def)
next
  case (Some c)
  show ?thesis
  proof (cases "AcceptedSpec c")
    case None
    with Some show ?thesis by (simp add: notifyCluster_def)
  next
    case A: (Some a)
    with Some show ?thesis by (simp add: notifyCluster_def)
  qed
qed

lemma notifyCluster_effects:
  "\<forall>e \<in> set (notifyCluster d). \<not> isUpToDateTrue e \<and> (\<forall>x. e \<noteq> UpdateCRSpec x)"
  using notifyCluster_cases [of d] by auto

subsection \<open>The spec of the stored object\<close>

lemma Spec_applyEffect:
  "Spec_d (applyEffect e obj) = (case e of UpdateCRSpec s \<Rightarrow> s | _ \<Rightarrow> Spec_d obj)"
proof (cases e)
  case (StatusWrite w a)
  then show ?thesis by (cases a) simp_all
qed simp_all

lemma Spec_applyEffect_write: "Spec_d (applyEffect (UpdateCRSpec s) obj) = s"
  by simp

lemma Spec_applyEffect_other:
  "(\<And>s. e \<noteq> UpdateCRSpec s) \<Longrightarrow> Spec_d (applyEffect e obj) = Spec_d obj"
  by (cases e) (auto simp: Spec_applyEffect)

lemma fold_applyEffect_Spec:
  assumes "\<forall>s. UpdateCRSpec s \<in> set effs \<longrightarrow> s = R"
  shows "Spec_d (fold applyEffect effs obj) = (if UpdateCRSpec R \<in> set effs then R else Spec_d obj)"
  using assms
proof (induction effs arbitrary: obj)
  case Nil
  show ?case by simp
next
  case (Cons e effs)
  have P: "\<forall>s. UpdateCRSpec s \<in> set effs \<longrightarrow> s = R"
    using Cons.prems by (meson list.set_intros(2))
  have IH: "Spec_d (fold applyEffect effs (applyEffect e obj)) =
      (if UpdateCRSpec R \<in> set effs then R else Spec_d (applyEffect e obj))"
    by (rule Cons.IH [OF P])
  have F: "fold applyEffect (e # effs) obj = fold applyEffect effs (applyEffect e obj)"
    by simp
  show ?case
  proof (cases "\<exists>s. e = UpdateCRSpec s")
    case True
    then obtain s where E: "e = UpdateCRSpec s" by blast
    have "UpdateCRSpec s \<in> set (e # effs)" unfolding E by (rule list.set_intros(1))
    with Cons.prems have S: "s = R" by blast
    have "Spec_d (applyEffect e obj) = R" unfolding E S by (rule Spec_applyEffect_write)
    moreover have "UpdateCRSpec R \<in> set (e # effs)" unfolding E S by (rule list.set_intros(1))
    ultimately show ?thesis unfolding F IH by simp
  next
    case False
    then have N: "\<And>s. e \<noteq> UpdateCRSpec s" by blast
    have 1: "Spec_d (applyEffect e obj) = Spec_d obj" by (rule Spec_applyEffect_other [OF N])
    have 2: "UpdateCRSpec R \<in> set (e # effs) \<longleftrightarrow> UpdateCRSpec R \<in> set effs"
      using N [of R] by (metis set_ConsD list.set_intros(2))
    show ?thesis unfolding F IH 1 2 by (rule refl)
  qed
qed

subsection \<open>The concrete deployment\<close>

lemmas inspection_defs = Get_c_def IsTrue_def IsTrue_c_def IsPlanEmpty_def ReduceTo_def
  updateConditionWithHash_def updated_then_retry_def specGate_def failed_def ensureResources_def
  resourcesPhase_def planPhase_def isUpToDateStatus_def reachablePhase_def upToDatePhase_def
  executePhase_def inspectDeploymentWithError_def immutableFields_def ResetImmutableFields_def
  acceptNewSpec_def finish_def notifyCluster_def proceed_def inspectObject_def inspectDeployment_def

lemmas inspection_demo_defs = spec_accepted_demo_def spec_changed_demo_def hash_demo_def
  checksum_demo_def condition_demo_def status_demo_def maintenance_on_def no_annotations_def
  object_demo_def deployment_demo_def all_succeed_def every_minute_def never_def
  writes_accepted_def nothing_to_accept_def tickEnv_demo_def

lemma inspectDeployment_maintenance_demo:
  "inspectDeployment tickEnv_demo deployment_demo (Some (object_demo maintenance_on), None) 60
     = (Some 60, [], deployment_demo)"
  by (simp add: inspectDeployment_def inspectObject_def tickEnv_demo_def object_demo_def
      maintenance_on_def all_succeed_def)

lemma tickOnStore_maintenance_demo:
  "tickOnStore tickEnv_demo 60 (deployment_demo, object_demo maintenance_on)
     = (deployment_demo, object_demo maintenance_on)"
  by (simp add: tickOnStore_def inspectDeployment_maintenance_demo storeAfter_def)

lemma inspectDeployment_demo:
  "inspectDeployment tickEnv_demo deployment_demo (Some (object_demo no_annotations), None) 60
     = (Some 60,
        [UpdateCRSpec spec_accepted_demo,
         StatusWrite (UpdateWithHash SpecAccepted False ''Spec Changed''
           ''Spec Object changed. Waiting to be accepted''
           ''mmfiles/test.encryption.keySecretName/dbservers=3'') None],
        deployment_demo\<lparr>currentObject := Some (object_demo no_annotations)\<rparr>)"
  by (simp add: inspection_defs inspection_demo_defs Let_def)

subsection \<open>Immutable fields\<close>





end
